theory Spec2Isabelle
  imports Complex_Main "HOL-Library.Sublist"
begin

section \<open>Python values\<close>

text \<open>
  A Python \<open>str\<close> is a sequence of Unicode code points, so it is modelled as a list of
  naturals; \<open>ustr\<close> embeds an ASCII literal, and every other character of a source literal is
  written as its code point (233 is e-acute, 10 is the newline).  A Python \<open>float\<close> is
  modelled as a real number and a float literal as its decimal value.
\<close>

type_synonym pystr = "nat list"

definition ustr :: "string \<Rightarrow> pystr" where
  "ustr s = map of_char s"

text \<open>A dictionary from strings to strings (an FAQ row, a suggestion chip), in key order.\<close>

type_synonym row = "(pystr \<times> pystr) list"

text \<open>The Python values that occur as session values and as suggestion labels.\<close>

datatype pyval =
    VNone
  | VBool bool
  | VInt int
  | VFloat real
  | VStr pystr
  | VDict row

fun is_str :: "pyval \<Rightarrow> bool" where
  "is_str (VStr s) = True"
| "is_str v = False"

text \<open>\<open>d.get(k, dflt)\<close>\<close>

definition dict_get :: "row \<Rightarrow> pystr \<Rightarrow> pystr \<Rightarrow> pystr" where
  "dict_get d k dflt = (case map_of d k of None \<Rightarrow> dflt | Some v \<Rightarrow> v)"

text \<open>\<open>k in t\<close> on strings: \<open>k\<close> occurs in \<open>t\<close> as a contiguous substring.\<close>

fun isin :: "pystr \<Rightarrow> pystr \<Rightarrow> bool" where
  "isin k [] = (k = [])"
| "isin k (c # t) = (prefix k (c # t) \<or> isin k t)"

text \<open>\<open>any(k in t for k in keywords)\<close>\<close>

definition any_in :: "pystr list \<Rightarrow> pystr \<Rightarrow> bool" where
  "any_in keywords t = list_ex (\<lambda>k. isin k t) keywords"

text \<open>\<open>t.replace(old, new)\<close> where \<open>old\<close> and \<open>new\<close> are one code point each, as in every
  call of the source.\<close>

definition replace :: "nat \<Rightarrow> nat \<Rightarrow> pystr \<Rightarrow> pystr" where
  "replace old new t = map (\<lambda>c. if c = old then new else c) t"

text \<open>The code points that \<open>str.strip()\<close> removes (Python's Unicode whitespace).\<close>

definition isspace :: "nat \<Rightarrow> bool" where
  "isspace c =
    ((9 \<le> c \<and> c \<le> 13) \<or> (28 \<le> c \<and> c \<le> 32) \<or> c = 133 \<or> c = 160 \<or> c = 5760 \<or>
     (8192 \<le> c \<and> c \<le> 8202) \<or> c = 8232 \<or> c = 8233 \<or> c = 8239 \<or> c = 8287 \<or> c = 12288)"

definition strip :: "pystr \<Rightarrow> pystr" where
  "strip t = rev (dropWhile isspace (rev (dropWhile isspace t)))"

text \<open>\<open>not query or not query.strip()\<close>\<close>

definition blank :: "pystr \<Rightarrow> bool" where
  "blank query = (query = [] \<or> strip query = [])"

text \<open>\<open>xs[:k]\<close> for a Python integer \<open>k\<close>: a negative \<open>k\<close> drops the last \<open>-k\<close> elements.\<close>

definition slice_to :: "int \<Rightarrow> 'a list \<Rightarrow> 'a list" where
  "slice_to k xs = (if 0 \<le> k then take (nat k) xs else take (length xs - nat (- k)) xs)"

text \<open>
  The library functions the program calls and the repository does not define:
  \<open>str.lower\<close> (the Unicode lower-casing) and numpy's \<open>argsort\<close> (whose order among equal
  values is not fixed).  They are parameters of the model.
\<close>

record runtime =
  str_lower :: "pystr \<Rightarrow> pystr"
  np_argsort :: "real list \<Rightarrow> nat list"

text \<open>The contract of \<open>argsort\<close>: the indices of the array, each once, by ascending value.\<close>

definition argsort_ok :: "(real list \<Rightarrow> nat list) \<Rightarrow> real list \<Rightarrow> bool" where
  "argsort_ok f xs =
    (distinct (f xs) \<and> set (f xs) = {0..<length xs} \<and> sorted (map (\<lambda>i. xs ! i) (f xs)))"

text \<open>Two instances, used to run the model: lower-casing on the code points below 256,
  where it agrees with \<open>str.lower\<close>, and the stable argsort.\<close>

definition lower_latin1 :: "pystr \<Rightarrow> pystr" where
  "lower_latin1 t =
    map (\<lambda>c. if (65 \<le> c \<and> c \<le> 90) \<or> (192 \<le> c \<and> c \<le> 222 \<and> c \<noteq> 215) then c + 32 else c) t"

definition stable_argsort :: "real list \<Rightarrow> nat list" where
  "stable_argsort xs = sort_key (\<lambda>i. xs ! i) [0..<length xs]"

definition py :: runtime where
  "py = \<lparr>str_lower = lower_latin1, np_argsort = stable_argsort\<rparr>"

text \<open>numpy's \<open>argmax\<close>: the first index of the greatest value; it raises on an empty array.\<close>

fun argmax_aux :: "nat \<Rightarrow> real \<Rightarrow> nat \<Rightarrow> real list \<Rightarrow> nat" where
  "argmax_aux best bv i [] = best"
| "argmax_aux best bv i (x # xs) =
    (if bv < x then argmax_aux i x (Suc i) xs else argmax_aux best bv (Suc i) xs)"

definition argmax :: "real list \<Rightarrow> nat option" where
  "argmax xs = (case xs of [] \<Rightarrow> None | x # rest \<Rightarrow> Some (argmax_aux 0 x 1 rest))"

datatype error = ValueError

section \<open>The FAQ agent (faq\_agent.py)\<close>

text \<open>
  An entry of the knowledge base, with its three string fields.  The knowledge base file is
  read once at construction; its loading is not part of this development.
\<close>

record faq_entry =
  question :: pystr
  answer :: pystr
  category :: pystr

text \<open>
  \<open>cosine a q i\<close> is the cosine similarity of the vectorised query \<open>q\<close> and row \<open>i\<close> of the
  matrix fitted at construction (scikit-learn's \<open>transform\<close> and \<open>cosine_similarity\<close>); it is
  a parameter of the agent.  The constructor fails on an empty corpus, so a constructed
  agent has a non-empty \<open>faq\<close>; on an empty one \<open>answer\<close> raises in \<open>argmax\<close>.
\<close>

record faq_agent =
  faq :: "faq_entry list"
  tips :: "pystr list"
  min_similarity :: real
  cosine :: "pystr \<Rightarrow> nat \<Rightarrow> real"

text \<open>\<open>self.df.iloc[i].to_dict()\<close>\<close>

definition to_dict :: "faq_entry \<Rightarrow> row" where
  "to_dict e =
    [(ustr ''question'', question e), (ustr ''answer'', answer e), (ustr ''category'', category e)]"

text \<open>\<open>cosine_similarity(vec, self.matrix)[0]\<close>: one score for each FAQ entry.\<close>

definition sims :: "faq_agent \<Rightarrow> pystr \<Rightarrow> real list" where
  "sims a query = map (cosine a query) [0..<length (faq a)]"

text \<open>The string literals of the two modules, character for character.\<close>

definition greeting_keywords :: "pystr list" where
  "greeting_keywords =
    [ustr ''bonjour'', ustr ''salut'', ustr ''bonsoir'', ustr ''hello'', ustr ''hi'',
     ustr ''hey'', ustr ''coucou'']"

definition intent_keywords :: "(pystr \<times> pystr list) list" where
  "intent_keywords =
    [(ustr ''phishing_incident'',
      [ustr ''phishing'', ustr ''hame'' @ [231] @ ustr ''onnage'', ustr ''hameconnage'',
       ustr ''email suspect'', ustr ''mail suspect'', ustr ''lien suspect'',
       ustr ''lien douteux'', ustr ''ai clique'', ustr ''j ai clique'', ustr ''clique sur'',
       ustr ''piege'', ustr ''arnaque'', ustr ''scam'', ustr ''frauduleux'',
       ustr ''usurpation'', ustr ''recu un mail'', ustr ''email bizarre'', ustr ''suspect'',
       ustr ''douteux'', ustr ''etrange'']),
     (ustr ''password_security'',
      [ustr ''mot de passe'', ustr ''password'', ustr ''mdp'', ustr ''gestionnaire'',
       ustr ''complexe'', ustr ''securise'', ustr ''robuste'', ustr ''fort'',
       ustr ''faible'', ustr ''creer un mot'', ustr ''changer mot'', ustr ''oublie mot'',
       ustr ''reset password'', ustr ''perdu mot'', ustr ''bloque'', ustr ''verrouille'',
       ustr ''probleme mot'', ustr ''compte bloque'']),
     (ustr ''mfa'',
      [ustr ''mfa'', ustr ''2fa'', ustr ''authentification'',
       ustr ''double authentification'', ustr ''multifacteur'', ustr ''code'',
       ustr ''verification'', ustr ''token'', ustr ''otp'', ustr ''deux facteurs'',
       ustr ''validation'']),
     (ustr ''vpn'',
      [ustr ''vpn'', ustr ''reseau'', ustr ''a distance'', ustr ''remote'',
       ustr ''connexion'', ustr ''distant'', ustr ''tunnel'', ustr ''wifi public'',
       ustr ''reseau public'', ustr ''travail distance'', ustr ''teletravail'']),
     (ustr ''updates'',
      [ustr ''mise a jour'', ustr ''maj'', ustr ''patch'', ustr ''correctif'',
       ustr ''update'', ustr ''installer'', ustr ''mettre a jour'', ustr ''version'',
       ustr ''upgrade'']),
     (ustr ''data_sensitivity'',
      [ustr ''donnees sensibles'', ustr ''donnees'', ustr ''rgpd'', ustr ''confidentiel'',
       ustr ''partage'', ustr ''fichier'', ustr ''document'', ustr ''transfert'',
       ustr ''sensitive'', ustr ''partager fichier'', ustr ''envoyer fichier'',
       ustr ''donnee'']),
     (ustr ''incident_reporting'',
      [ustr ''incident'', ustr ''signaler'', ustr ''securite'', ustr ''compromis'',
       ustr ''support'', ustr ''alerte'', ustr ''probleme'', ustr ''attaque'',
       ustr ''breach'', ustr ''violation'', ustr ''contacter'', ustr ''aide'',
       ustr ''urgence''])]"

definition greeting_msg :: "pystr" where
  "greeting_msg =
    ustr ''Bonjour ! Je suis CyberGuard, votre assistant en cybers'' @ [233] @ ustr ''curit'' @
    [233] @
    ustr ''. Je peux vous aider avec : le phishing, les mots de passe, la MFA, le VPN, les mises '' @
    [224] @ ustr '' jour, la gestion des donn'' @ [233] @
    ustr ''es sensibles, et le signalement d'' @ [39] @
    ustr ''incidents. Comment puis-je vous aider ?''"

definition phishing_msg :: "pystr" where
  "phishing_msg =
    ustr ''Compris. Pour un potentiel hame'' @ [231] @ ustr ''onnage, restons m'' @ [233] @
    ustr ''thodiques. Je vais vous guider '' @ [233] @ ustr ''tape par '' @ [233] @
    ustr ''tape.''"

definition clarification_msg :: "pystr" where
  "clarification_msg =
    ustr ''Je peux vous aider sur : phishing, mots de passe, MFA, VPN, mises '' @ [224] @
    ustr '' jour, donn'' @ [233] @ ustr ''es sensibles, signalement d'' @ [39] @
    ustr ''incident. Pouvez-vous pr'' @ [233] @ ustr ''ciser votre probl'' @ [232] @
    ustr ''me ?''"

definition greeting_suggestions :: "(pyval \<times> real) list" where
  "greeting_suggestions =
    [(VDict [(ustr ''question'', [128272] @ ustr '' Comment cr'' @ [233] @ ustr ''er un mot de passe solide ?'')], 1),
     (VDict [(ustr ''question'', [128680] @ ustr '' Comment d'' @ [233] @ ustr ''tecter un email suspect ?'')], 1),
     (VDict [(ustr ''question'', [128273] @ ustr '' Qu'' @ [39] @ ustr ''est-ce que la MFA ?'')], 1)]"

definition clarification_suggestions :: "(pyval \<times> real) list" where
  "clarification_suggestions =
    [(VDict [(ustr ''question'', [128680] @ ustr '' J'' @ [39] @ ustr ''ai re'' @ [231] @ ustr ''u un mail suspect'')], 1),
     (VDict [(ustr ''question'', [128272] @ ustr '' Mon mot de passe est bloqu'' @ [233])], 1),
     (VDict [(ustr ''question'', [128273] @ ustr '' Activer la MFA'')], 1),
     (VDict [(ustr ''question'', [128737, 65039] @ ustr '' Signaler un incident'')], 1)]"

definition phishing_steps :: "pystr list" where
  "phishing_steps =
    [ustr ''Ne cliquez plus dans l'' @ [39] @ ustr ''email et n'' @ [39] @
      ustr ''ouvrez pas les pi'' @ [232] @ ustr ''ces jointes.'',
     ustr ''Si vous avez entr'' @ [233] @ ustr '' des identifiants, changez-les imm'' @ [233] @
      ustr ''diatement et activez la MFA.'',
     ustr ''Capturez les '' @ [233] @ ustr ''l'' @ [233] @ ustr ''ments (exp'' @ [233] @
      ustr ''diteur, sujet, lien) et signalez l'' @ [39] @ ustr ''email '' @ [224] @
      ustr '' la s'' @ [233] @ ustr ''curit'' @ [233] @ ustr ''.'']"

definition phishing_follow_up :: "pystr" where
  "phishing_follow_up =
    ustr ''Avez-vous entr'' @ [233] @ ustr '' des identifiants ou t'' @ [233] @ ustr ''l'' @
    [233] @ ustr ''charg'' @ [233] @ ustr '' une pi'' @ [232] @ ustr ''ce jointe apr'' @ [232] @
    ustr ''s avoir cliqu'' @ [233] @ ustr '' ?''"

definition password_recovery_script :: "pystr" where
  "password_recovery_script =
    ustr ''Voyons ensemble pour votre mot de passe :'' @ [10] @ ustr ''1) Essayez la fonction '' @
    [171, 8239] @ ustr ''Mot de passe oubli'' @ [233, 8239, 187] @ ustr '' du portail.'' @ [10] @
    ustr ''2) Si votre compte est bloqu'' @ [233] @ ustr '', attendez 15 minutes puis r'' @
    [233] @ ustr ''essayez.'' @ [10] @ ustr ''3) Si '' @ [231] @
    ustr ''a ne marche pas, contactez le support IT pour un reset s'' @ [233] @ ustr ''curis'' @
    [233] @ ustr ''.'' @ [10] @ ustr ''4) Une fois r'' @ [233] @ ustr ''initialis'' @ [233] @
    ustr '', d'' @ [233] @ ustr ''finissez un mot de passe unique et activez la MFA.''"

definition urgent_msg :: "pystr" where
  "urgent_msg =
    ustr ''Action imm'' @ [233] @ ustr ''diate requise :'' @ [10] @
    ustr ''1. Changez tous vos mots de passe imm'' @ [233] @ ustr ''diatement'' @ [10] @
    ustr ''2. Activez la MFA sur tous vos comptes'' @ [10] @ ustr ''3. Contactez l'' @ [39, 233] @
    ustr ''quipe s'' @ [233] @ ustr ''curit'' @ [233] @ ustr '' : security@company.com'' @ [10] @
    ustr ''4. Surveillez vos comptes pour toute activit'' @ [233] @ ustr '' suspecte''"

definition urgent_steps :: "pystr list" where
  "urgent_steps =
    [ustr ''Changez vos mots de passe maintenant'', ustr ''Activez la MFA partout'',
     ustr ''Contactez security@company.com'', ustr ''Surveillez vos comptes'']"

definition lower_urgency_msg :: "pystr" where
  "lower_urgency_msg =
    ustr ''Bien. Voici ce qu'' @ [39] @ ustr ''il faut faire :'' @ [10] @ ustr ''1. Ne r'' @
    [233] @ ustr ''utilisez plus cet email'' @ [10] @ ustr ''2. Signalez-le '' @ [224] @
    ustr '' votre '' @ [233] @ ustr ''quipe IT'' @ [10] @ ustr ''3. Supprimez l'' @ [39] @
    ustr ''email'' @ [10] @ ustr ''4. Restez vigilant pour les prochains emails''"

definition lower_urgency_steps :: "pystr list" where
  "lower_urgency_steps =
    [ustr ''Signalez l'' @ [39] @ ustr ''email '' @ [224] @ ustr '' l'' @ [39, 233] @
      ustr ''quipe IT'',
     ustr ''Supprimez l'' @ [39] @ ustr ''email sans y r'' @ [233] @ ustr ''pondre'',
     ustr ''Restez vigilant'']"

definition general_steps :: "pystr list" where
  "general_steps =
    [ustr ''V'' @ [233] @ ustr ''rifiez toujours l'' @ [39] @ ustr ''exp'' @ [233] @
      ustr ''diteur des emails.'',
     ustr ''Utilisez des mots de passe robustes et uniques.'',
     ustr ''Activez la MFA partout o'' @ [249] @ ustr '' c'' @ [39] @ ustr ''est possible.'',
     ustr ''En cas de doute, contactez l'' @ [39, 233] @ ustr ''quipe s'' @ [233] @
      ustr ''curit'' @ [233] @ ustr ''.'']"

definition generic_steps_mapping :: "(pystr \<times> pystr list) list" where
  "generic_steps_mapping =
    [(ustr ''password_security'',
      [ustr ''Utilisez un gestionnaire de mots de passe fourni par l'' @ [39] @
        ustr ''organisation.'',
       ustr ''Cr'' @ [233] @ ustr ''ez un mot de passe d'' @ [39] @ ustr ''au moins 12 caract'' @
        [232] @ ustr ''res m'' @ [233] @
        ustr ''langeant majuscules, minuscules, chiffres et symboles.'',
       ustr ''Activez la MFA sur tous vos comptes critiques.'',
       ustr ''Ne r'' @ [233] @ ustr ''utilisez jamais le m'' @ [234] @ ustr ''me mot de passe.'']),
     (ustr ''mfa'',
      [ustr ''Pr'' @ [233] @ ustr ''f'' @ [233] @ ustr ''rez les applications d'' @ [39] @
        ustr ''authentification (Google Authenticator, Microsoft Authenticator) aux SMS.'',
       ustr ''Gardez des codes de secours dans un coffre s'' @ [233] @ ustr ''curis'' @ [233] @
        ustr ''.'',
       ustr ''Activez la MFA sur tous les comptes qui le permettent.'']),
     (ustr ''vpn'',
      [ustr ''T'' @ [233] @ ustr ''l'' @ [233] @
        ustr ''chargez le client VPN depuis le portail IT de votre organisation.'',
       ustr ''Activez le VPN avant d'' @ [39] @ ustr ''acc'' @ [233] @ ustr ''der '' @ [224] @
        ustr '' toute ressource interne.'',
       ustr ''Utilisez toujours le VPN sur les r'' @ [233] @ ustr ''seaux publics ou non fiables.'',
       ustr ''Fermez la session VPN apr'' @ [232] @ ustr ''s usage.'']),
     (ustr ''updates'',
      [ustr ''Appliquez les patchs critiques dans les 48 heures.'',
       ustr ''Installez les patchs normaux dans les 2 semaines.'',
       ustr ''Red'' @ [233] @ ustr ''marrez l'' @ [39] @ ustr ''appareil apr'' @ [232] @
        ustr ''s un patch critique.'',
       ustr ''V'' @ [233] @ ustr ''rifiez que la mise '' @ [224] @ ustr '' jour s'' @ [39] @
        ustr ''est bien appliqu'' @ [233] @ ustr ''e.'']),
     (ustr ''data_sensitivity'',
      [ustr ''Utilisez uniquement les outils homologu'' @ [233] @
        ustr ''s pour partager des fichiers sensibles.'',
       ustr ''Chiffrez les donn'' @ [233] @ ustr ''es en transit (HTTPS/TLS) et au repos.'',
       ustr ''Limitez l'' @ [39] @ ustr ''acc'' @ [232] @ ustr ''s aux personnes vraiment autoris'' @
        [233] @ ustr ''es.'',
       ustr ''Appliquez le principe du moindre privil'' @ [232] @ ustr ''ge.'']),
     (ustr ''incident_reporting'',
      [ustr ''Collectez les '' @ [233] @ ustr ''l'' @ [233] @
        ustr ''ments (logs, captures, emails) sans les alt'' @ [233] @ ustr ''rer.'',
       ustr ''Contactez imm'' @ [233] @ ustr ''diatement l'' @ [39, 233] @ ustr ''quipe s'' @ [233] @
        ustr ''curit'' @ [233] @ ustr '' (ne pas attendre).'',
       ustr ''Cr'' @ [233] @ ustr ''ez un ticket dans le syst'' @ [232] @
        ustr ''me GRC si disponible.'',
       ustr ''Notifiez votre manager de la situation.'']),
     (ustr ''general'', general_steps)]"

definition empty_query_msg :: "pystr" where
  "empty_query_msg =
    ustr ''Veuillez poser une question li'' @ [233] @ ustr ''e '' @ [224] @ ustr '' la cybers'' @
    [233] @ ustr ''curit'' @ [233] @ ustr ''.''"

definition fallback_msg :: "pystr" where
  "fallback_msg =
    ustr ''Je n'' @ [39] @ ustr ''ai pas une r'' @ [233] @ ustr ''ponse pr'' @ [233] @
    ustr ''cise pour cette question. Voici quelques conseils g'' @ [233] @ ustr ''n'' @ [233] @
    ustr ''raux : '' @ [233] @
    ustr ''vitez de cliquer sur des liens suspects, utilisez des mots de passe robustes (12+ caract'' @
    [232] @ ustr ''res), activez la MFA partout o'' @ [249] @ ustr '' c'' @ [39] @
    ustr ''est possible. Pour les incidents ou questions sp'' @ [233] @
    ustr ''cifiques, contactez l'' @ [39, 233] @ ustr ''quipe cybers'' @ [233] @ ustr ''curit'' @
    [233] @ ustr ''.''"

definition default_tip :: "pystr" where
  "default_tip =
    ustr ''Astuce: Activez l'' @ [39] @ ustr ''authentification multifacteur et ne r'' @ [233] @
    ustr ''utilisez pas vos mots de passe.''"

definition faq_answer :: "faq_agent \<Rightarrow> pystr \<Rightarrow> error + (pystr \<times> real \<times> row)" where
  "faq_answer a query =
    (if blank query then Inr (empty_query_msg, 0, [])
     else
       (case argmax (sims a query) of
          None \<Rightarrow> Inl ValueError
        | Some best_idx \<Rightarrow>
            (let best_score = sims a query ! best_idx;
                 best_row = to_dict (faq a ! best_idx)
             in if best_score \<ge> min_similarity a
                then Inr (dict_get best_row (ustr ''answer'') [], best_score, best_row)
                else Inr (fallback_msg, best_score, []))))"

text \<open>\<open>tip\<close>: \<open>r\<close> is the draw of \<open>random.choice\<close>.\<close>

definition faq_tip :: "faq_agent \<Rightarrow> nat \<Rightarrow> pystr" where
  "faq_tip a r = (if tips a = [] then default_tip else tips a ! (r mod length (tips a)))"

text \<open>The loop of \<open>search\<close> over the selected indices.\<close>

fun collect :: "faq_agent \<Rightarrow> real list \<Rightarrow> nat list \<Rightarrow> (row \<times> real) list" where
  "collect a s [] = []"
| "collect a s (i # idxs) =
    (let score = s ! i
     in if score \<ge> 0.10 then (to_dict (faq a ! i), score) # collect a s idxs
        else collect a s idxs)"

definition faq_search :: "runtime \<Rightarrow> faq_agent \<Rightarrow> pystr \<Rightarrow> int \<Rightarrow> (row \<times> real) list" where
  "faq_search rt a query top_k =
    (if blank query then []
     else
       (let s = sims a query;
            idxs = slice_to top_k (rev (np_argsort rt s))
        in collect a s idxs))"

section \<open>The persistence sink (database.py)\<close>

text \<open>
  The two tables the orchestrator writes, as append-only lists of rows (the row identifiers
  and timestamps that the database adds are left out; a failing write is not modelled).
\<close>

record db =
  conversations :: "(pystr \<times> pystr \<times> pystr \<times> pystr) list"
  metrics :: "(pystr \<times> int \<times> pystr) list"

definition save_conversation :: "pystr \<Rightarrow> pystr \<Rightarrow> pystr \<Rightarrow> pystr \<Rightarrow> db \<Rightarrow> db" where
  "save_conversation user_id user_msg agent_response it d =
    d\<lparr>conversations := conversations d @ [(user_id, user_msg, agent_response, it)]\<rparr>"

definition increment_metric :: "pystr \<Rightarrow> pystr \<Rightarrow> db \<Rightarrow> db" where
  "increment_metric metric_name it d = d\<lparr>metrics := metrics d @ [(metric_name, 1, it)]\<rparr>"

section \<open>The orchestrator (orchestrator.py)\<close>

record agent_response =
  message :: pystr
  steps :: "pystr list"
  suggestions :: "(pyval \<times> real) list"
  tip :: pystr
  follow_up :: pystr
  intent :: pystr

text \<open>The guidance of an intent, as the knowledge base gives it.\<close>

record guidance_block =
  why :: pystr
  best_practices :: "pystr list"
  common_mistakes :: "pystr list"

record orchestrator =
  orch_faq :: faq_agent
  guidance :: "pystr \<rightharpoonup> guidance_block"

text \<open>The session is the caller's dictionary.\<close>

type_synonym session = "pystr \<rightharpoonup> pyval"

definition normalize :: "runtime \<Rightarrow> pystr \<Rightarrow> pystr" where
  "normalize rt text =
    replace 234 101 (replace 232 101 (replace 233 101 (replace 45 32 (replace 39 32
      (str_lower rt text)))))"

text \<open>The loop over \<open>intent_keywords.items()\<close>, in insertion order.\<close>

fun first_match :: "(pystr \<times> pystr list) list \<Rightarrow> pystr \<Rightarrow> pystr" where
  "first_match [] t = ustr ''general''"
| "first_match ((it, keywords) # rest) t =
    (if any_in keywords t then it else first_match rest t)"

definition detect_intent :: "runtime \<Rightarrow> pystr \<Rightarrow> pystr" where
  "detect_intent rt text =
    (let t = normalize rt text
     in if any_in greeting_keywords t then ustr ''greeting''
        else first_match intent_keywords t)"

definition generic_steps :: "pystr \<Rightarrow> pystr list" where
  "generic_steps it =
    (case map_of generic_steps_mapping it of Some s \<Rightarrow> s | None \<Rightarrow> general_steps)"

definition enrich_md :: "orchestrator \<Rightarrow> pystr \<Rightarrow> pystr" where
  "enrich_md orch it =
    (case guidance orch it of
       None \<Rightarrow> []
     | Some g \<Rightarrow>
        (let out0 = [10, 10] @ ustr ''**Contexte :** '' @ why g;
             out1 = (if best_practices g \<noteq> []
                     then foldl (\<lambda>out bp. out @ [8226] @ ustr '' '' @ bp @ [10])
                            (out0 @ [10, 10] @ ustr ''**Bonnes pratiques :**'' @ [10])
                            (best_practices g)
                     else out0);
             out2 = (if common_mistakes g \<noteq> []
                     then foldl (\<lambda>out m. out @ [9888, 65039] @ ustr '' '' @ m @ [10])
                            (out1 @ [10] @ ustr ''**Erreurs courantes :**'' @ [10])
                            (common_mistakes g)
                     else out1)
         in out2))"

definition pending_flow :: pystr where
  "pending_flow = ustr ''pending_flow''"

definition phishing_followup :: pystr where
  "phishing_followup = ustr ''phishing_followup''"

definition question_asked :: pystr where
  "question_asked = ustr ''question_asked''"

text \<open>\<open>[(q.get("question", ""), s) for (q, s) in self.faq.search(user_text, top_k=3)]\<close>\<close>

definition search_suggestions :: "runtime \<Rightarrow> faq_agent \<Rightarrow> pystr \<Rightarrow> (pyval \<times> real) list" where
  "search_suggestions rt a user_text =
    map (\<lambda>(q, s). (VStr (dict_get q (ustr ''question'') []), s)) (faq_search rt a user_text 3)"

definition handle_phishing_followup ::
  "runtime \<Rightarrow> orchestrator \<Rightarrow> nat \<Rightarrow> pystr \<Rightarrow> session \<Rightarrow> pystr \<Rightarrow> db
    \<Rightarrow> (error + agent_response) \<times> session \<times> db" where
  "handle_phishing_followup rt orch r user_text sess user_id d =
    (let t = str_lower rt user_text;
         sess1 = sess(pending_flow := None);
         (msg, stps) =
           (if isin (ustr ''oui'') t \<or> isin (ustr ''identifiant'') t \<or> isin (ustr ''mot de passe'') t
            then (urgent_msg, urgent_steps)
            else (lower_urgency_msg, lower_urgency_steps));
         tp = faq_tip (orch_faq orch) r;
         d1 = save_conversation user_id user_text msg phishing_followup d
     in (Inr \<lparr>message = msg, steps = stps, suggestions = [], tip = tp, follow_up = [],
              intent = phishing_followup\<rparr>, sess1, d1))"

text \<open>
  \<open>respond\<close> returns the response (or the exception raised), the session and the database
  as the call leaves them.  \<open>r\<close> is the draw of \<open>random.choice\<close> for the tip.
\<close>

definition respond ::
  "runtime \<Rightarrow> orchestrator \<Rightarrow> nat \<Rightarrow> pystr \<Rightarrow> session \<Rightarrow> pystr \<Rightarrow> db
    \<Rightarrow> (error + agent_response) \<times> session \<times> db" where
  "respond rt orch r user_text sess user_id d =
    (if sess pending_flow = Some (VStr phishing_followup)
     then handle_phishing_followup rt orch r user_text sess user_id d
     else
       (let it = detect_intent rt user_text
        in if it = ustr ''greeting'' then
             (let msg = greeting_msg;
                  tp = faq_tip (orch_faq orch) r;
                  d1 = save_conversation user_id user_text msg it d;
                  d2 = increment_metric question_asked it d1
              in (Inr \<lparr>message = msg, steps = [], suggestions = greeting_suggestions, tip = tp,
                       follow_up = [], intent = it\<rparr>, sess, d2))
           else if it = ustr ''phishing_incident'' then
             (let sugg = search_suggestions rt (orch_faq orch) user_text;
                  tp = faq_tip (orch_faq orch) r;
                  sess1 = sess(pending_flow \<mapsto> VStr phishing_followup);
                  msg = phishing_msg @ enrich_md orch it;
                  d1 = save_conversation user_id user_text msg it d;
                  d2 = increment_metric question_asked it d1
              in (Inr \<lparr>message = msg, steps = phishing_steps, suggestions = sugg, tip = tp,
                       follow_up = phishing_follow_up, intent = it\<rparr>, sess1, d2))
           else
             (case faq_answer (orch_faq orch) user_text of
                Inl e \<Rightarrow> (Inl e, sess, d)
              | Inr (ans, score, meta) \<Rightarrow>
                 (let sugg = search_suggestions rt (orch_faq orch) user_text;
                      stps = generic_steps it;
                      tp = faq_tip (orch_faq orch) r
                  in if score < 0.15 \<and> (it = ustr ''general'' \<or> it = ustr ''incident_reporting'')
                     then
                       (let msg = clarification_msg;
                            d1 = save_conversation user_id user_text msg it d;
                            d2 = increment_metric question_asked it d1
                        in (Inr \<lparr>message = msg, steps = [],
                                 suggestions = clarification_suggestions, tip = tp,
                                 follow_up = [], intent = it\<rparr>, sess, d2))
                     else
                       (let msg =
                              (if it = ustr ''password_security'' \<and> score < 0.3
                               then password_recovery_script
                                      @ enrich_md orch (ustr ''password_security'')
                               else if score \<ge> 0.3 then ans @ enrich_md orch it
                               else ans @ enrich_md orch (ustr ''general''));
                            d1 = save_conversation user_id user_text msg it d;
                            d2 = increment_metric question_asked it d1
                        in (Inr \<lparr>message = msg, steps = stps, suggestions = sugg, tip = tp,
                                 follow_up = [], intent = it\<rparr>, sess, d2))))))"

text \<open>The session and the database as a call leaves them.\<close>

abbreviation session_after :: "(error + agent_response) \<times> session \<times> db \<Rightarrow> session" where
  "session_after out \<equiv> fst (snd out)"

abbreviation db_after :: "(error + agent_response) \<times> session \<times> db \<Rightarrow> db" where
  "db_after out \<equiv> snd (snd out)"

section \<open>A small knowledge base to run the model on\<close>

definition demo_faq :: "faq_entry list" where
  "demo_faq =
    [\<lparr>question = ustr ''Comment utiliser le VPN ?'',
      answer = ustr ''Activez le VPN avant toute connexion.'',
      category = ustr ''vpn''\<rparr>,
     \<lparr>question = ustr ''Comment choisir un mot de passe ?'',
      answer = ustr ''Au moins 12 caracteres, unique pour chaque compte.'',
      category = ustr ''password''\<rparr>,
     \<lparr>question = ustr ''Pourquoi activer la MFA ?'',
      answer = ustr ''Un second facteur bloque la plupart des intrusions.'',
      category = ustr ''mfa''\<rparr>]"

text \<open>The agent over \<open>demo_faq\<close> whose similarity scores are \<open>scores\<close> for every query.\<close>

definition demo_agent :: "real list \<Rightarrow> faq_agent" where
  "demo_agent scores =
    \<lparr>faq = demo_faq, tips = [ustr ''Verrouillez votre session.''], min_similarity = 0.15,
     cosine = (\<lambda>q i. scores ! i)\<rparr>"

definition demo_vpn_guidance :: guidance_block where
  "demo_vpn_guidance =
    \<lparr>why = ustr ''Le VPN chiffre le trafic.'',
     best_practices = [ustr ''Activez le VPN.'', ustr ''Fermez la session.''],
     common_mistakes = []\<rparr>"

definition demo_password_guidance :: guidance_block where
  "demo_password_guidance =
    \<lparr>why = ustr ''Un mot de passe vole ouvre vos comptes.'',
     best_practices = [ustr ''Utilisez un gestionnaire.''],
     common_mistakes = [ustr ''Reutiliser un mot de passe.'']\<rparr>"

definition demo_guidance :: "pystr \<rightharpoonup> guidance_block" where
  "demo_guidance =
    [ustr ''general'' \<mapsto>
       \<lparr>why = ustr ''La vigilance limite les risques.'',
        best_practices = [ustr ''Verifiez les liens.''],
        common_mistakes = []\<rparr>,
     ustr ''vpn'' \<mapsto> demo_vpn_guidance,
     ustr ''password_security'' \<mapsto> demo_password_guidance]"

definition demo_orch :: "real list \<Rightarrow> orchestrator" where
  "demo_orch scores = \<lparr>orch_faq = demo_agent scores, guidance = demo_guidance\<rparr>"

definition db0 :: db where
  "db0 = \<lparr>conversations = [], metrics = []\<rparr>"

text \<open>The example text of the specification: a greeting followed by a phishing report.\<close>

definition spec_example_text :: pystr where
  "spec_example_text =
    ustr ''bonjour j'' @ [39] @ ustr ''ai cliqu'' @ [233] @ ustr '' sur un lien suspect''"

section \<open>Strings\<close>

text \<open>\<open>isin\<close> is the contiguous-substring relation.\<close>

lemma isin_iff_sublist: "isin k t \<longleftrightarrow> sublist k t"
proof (induction t)
  case Nil
  show ?case by simp
next
  case (Cons c t)
  show ?case by (simp add: Cons.IH sublist_Cons_right)
qed

text \<open>A query is blank exactly when all its characters are whitespace.\<close>

lemma strip_all_space:
  assumes "list_all isspace t"
  shows "strip t = []"
proof -
  from assms have d: "dropWhile isspace t = []" by (simp add: list_all_iff)
  show ?thesis unfolding strip_def d by simp
qed

lemma strip_Nil_all_space:
  assumes "strip t = []"
  shows "list_all isspace t"
proof -
  from assms have all: "\<forall>x \<in> set (dropWhile isspace t). isspace x"
    by (simp add: strip_def)
  have "dropWhile isspace t = []"
  proof (rule ccontr)
    assume ne: "dropWhile isspace t \<noteq> []"
    then have "\<not> isspace (hd (dropWhile isspace t))" by (rule hd_dropWhile)
    moreover from ne have "hd (dropWhile isspace t) \<in> set (dropWhile isspace t)" by simp
    ultimately show False using all by blast
  qed
  then show ?thesis by (simp add: list_all_iff)
qed

lemma blank_iff: "blank t \<longleftrightarrow> list_all isspace t"
proof
  assume "list_all isspace t"
  then show "blank t" by (simp add: blank_def strip_all_space)
next
  assume b: "blank t"
  show "list_all isspace t"
  proof (cases "t = []")
    case True
    then show ?thesis by simp
  next
    case False
    with b have "strip t = []" by (simp add: blank_def)
    then show ?thesis by (rule strip_Nil_all_space)
  qed
qed

section \<open>The retriever on blank queries\<close>

text \<open>
  Claim C6.  A query that is empty or consists only of whitespace is answered without the
  vector transform: whatever the similarity function \<open>f\<close> of the agent is, \<open>answer\<close> returns the
  fixed prompt for input with score 0.0 and empty metadata, and \<open>search\<close> returns the empty list.
\<close>

theorem blank_query_short_circuit:
  assumes "\<forall>c \<in> set query. isspace c"
  shows "faq_answer (a\<lparr>cosine := f\<rparr>) query = Inr (empty_query_msg, 0, [])
       \<and> faq_search rt (a\<lparr>cosine := f\<rparr>) query top_k = []"
proof -
  from assms have "blank query" by (simp add: blank_iff list_all_iff)
  then show ?thesis by (simp add: faq_answer_def faq_search_def)
qed

theorem blank_query_short_circuit_witness:
  "list_all isspace (ustr ''   '')
   \<and> faq_answer ((demo_agent [0.5, 0.2, 0.4])\<lparr>cosine := (\<lambda>q i. 1)\<rparr>) (ustr ''   '')
       = Inr (empty_query_msg, 0, [])
   \<and> faq_search py ((demo_agent [0.5, 0.2, 0.4])\<lparr>cosine := (\<lambda>q i. 1)\<rparr>) (ustr ''   '') 3 = []"
proof -
  have h: "\<forall>c \<in> set (ustr ''   ''). isspace c"
    by (simp add: ustr_def isspace_def)
  show ?thesis
    using h blank_query_short_circuit
      [OF h, where a = "demo_agent [0.5, 0.2, 0.4]" and f = "\<lambda>q i. 1" and rt = py and top_k = 3]
    by (simp add: list_all_iff)
qed

section \<open>The intent classifier\<close>

lemmas intent_eval =
  ustr_def normalize_def py_def lower_latin1_def replace_def any_in_def
  greeting_keywords_def intent_keywords_def detect_intent_def

lemma first_match_none:
  "\<not> list_ex (\<lambda>p. any_in (snd p) t) l \<Longrightarrow> first_match l t = ustr ''general''"
  by (induction l) auto

lemma first_match_first:
  "i < length l \<Longrightarrow> \<not> list_ex (\<lambda>p. any_in (snd p) t) (take i l) \<Longrightarrow> any_in (snd (l ! i)) t
    \<Longrightarrow> first_match l t = fst (l ! i)"
proof (induction l arbitrary: i)
  case Nil
  then show ?case by simp
next
  case (Cons p l)
  obtain it kws where p: "p = (it, kws)" by (cases p)
  show ?case
  proof (cases i)
    case 0
    with Cons.prems p show ?thesis by simp
  next
    case (Suc j)
    with Cons.prems p have "\<not> any_in kws t" by simp
    moreover from Suc Cons.prems have "first_match l t = fst (l ! j)"
      by (intro Cons.IH) auto
    ultimately show ?thesis using p Suc by simp
  qed
qed

text \<open>
  Claim C7.  Classification is first-match-wins with the greeting list checked first: a user_text
  whose normalized form contains a greeting keyword is classified \<open>greeting\<close>, whatever else
  it contains; a user_text whose normalized form contains no keyword of any list is classified
  \<open>general\<close>; and otherwise the intent is that of the first list, in the order of
  \<open>intent_keywords\<close>, one of whose keywords occurs in the normalized form.
\<close>

theorem detect_intent_first_match:
  "(any_in greeting_keywords (normalize rt user_text) \<longrightarrow> detect_intent rt user_text = ustr ''greeting'')
   \<and> (\<not> any_in greeting_keywords (normalize rt user_text)
        \<and> \<not> list_ex (\<lambda>p. any_in (snd p) (normalize rt user_text)) intent_keywords
      \<longrightarrow> detect_intent rt user_text = ustr ''general'')
   \<and> (\<not> any_in greeting_keywords (normalize rt user_text)
        \<and> i < length intent_keywords
        \<and> \<not> list_ex (\<lambda>p. any_in (snd p) (normalize rt user_text)) (take i intent_keywords)
        \<and> any_in (snd (intent_keywords ! i)) (normalize rt user_text)
      \<longrightarrow> detect_intent rt user_text = fst (intent_keywords ! i))"
  by (simp add: detect_intent_def first_match_none first_match_first)

theorem detect_intent_first_match_witness:
  "any_in greeting_keywords (normalize py spec_example_text)
   \<and> any_in (snd (intent_keywords ! 0)) (normalize py spec_example_text)
   \<and> detect_intent py spec_example_text = ustr ''greeting''
   \<and> \<not> any_in greeting_keywords (normalize py (ustr ''Merci''))
   \<and> \<not> list_ex (\<lambda>p. any_in (snd p) (normalize py (ustr ''Merci''))) intent_keywords
   \<and> detect_intent py (ustr ''Merci'') = ustr ''general''
   \<and> \<not> any_in greeting_keywords (normalize py (ustr ''mot de passe vpn''))
   \<and> 1 < length intent_keywords
   \<and> \<not> list_ex (\<lambda>p. any_in (snd p) (normalize py (ustr ''mot de passe vpn'')))
          (take 1 intent_keywords)
   \<and> any_in (snd (intent_keywords ! 1)) (normalize py (ustr ''mot de passe vpn''))
   \<and> any_in (snd (intent_keywords ! 3)) (normalize py (ustr ''mot de passe vpn''))
   \<and> detect_intent py (ustr ''mot de passe vpn'') = ustr ''password_security''"
proof -
  have n1: "normalize py spec_example_text = ustr ''bonjour j ai clique sur un lien suspect''"
    by (simp add: spec_example_text_def intent_eval)
  have g1: "any_in greeting_keywords (normalize py spec_example_text)"
    unfolding n1 by (simp add: intent_eval)
  have p1: "any_in (snd (intent_keywords ! 0)) (normalize py spec_example_text)"
    unfolding n1 by (simp add: intent_eval)
  have n2: "normalize py (ustr ''Merci'') = ustr ''merci''"
    by (simp add: intent_eval)
  have g2: "\<not> any_in greeting_keywords (normalize py (ustr ''Merci''))"
    unfolding n2 by (simp add: intent_eval)
  have k2: "\<not> list_ex (\<lambda>p. any_in (snd p) (normalize py (ustr ''Merci''))) intent_keywords"
    unfolding n2 by (simp add: intent_eval)
  have n3: "normalize py (ustr ''mot de passe vpn'') = ustr ''mot de passe vpn''"
    by (simp add: intent_eval)
  have g3: "\<not> any_in greeting_keywords (normalize py (ustr ''mot de passe vpn''))"
    unfolding n3 by (simp add: intent_eval)
  have l3: "1 < length intent_keywords" by (simp add: intent_keywords_def)
  have k3: "\<not> list_ex (\<lambda>p. any_in (snd p) (normalize py (ustr ''mot de passe vpn'')))
      (take 1 intent_keywords)"
    unfolding n3 by (simp add: intent_eval)
  have m3: "any_in (snd (intent_keywords ! 1)) (normalize py (ustr ''mot de passe vpn''))"
    unfolding n3 by (simp add: intent_eval)
  have v3: "any_in (snd (intent_keywords ! 3)) (normalize py (ustr ''mot de passe vpn''))"
    unfolding n3 by (simp add: intent_eval)
  have i1: "fst (intent_keywords ! 1) = ustr ''password_security''"
    by (simp add: intent_keywords_def)
  from detect_intent_first_match [where rt = py and user_text = spec_example_text] g1
  have r1: "detect_intent py spec_example_text = ustr ''greeting''" by blast
  from detect_intent_first_match [where rt = py and user_text = "ustr ''Merci''"] g2 k2
  have r2: "detect_intent py (ustr ''Merci'') = ustr ''general''" by blast
  from detect_intent_first_match [where rt = py and user_text = "ustr ''mot de passe vpn''" and i = 1]
    g3 l3 k3 m3
  have "detect_intent py (ustr ''mot de passe vpn'') = fst (intent_keywords ! 1)" by blast
  then have r3: "detect_intent py (ustr ''mot de passe vpn'') = ustr ''password_security''"
    by (simp only: i1)
  from g1 p1 r1 g2 k2 r2 g3 l3 k3 m3 v3 r3 show ?thesis by (intro conjI)
qed

section \<open>The orchestrator: what each branch returns\<close>

lemma respond_pending:
  "sess pending_flow = Some (VStr phishing_followup) \<Longrightarrow>
     respond rt orch r user_text sess uid d = handle_phishing_followup rt orch r user_text sess uid d"
  by (simp add: respond_def)

lemma handler_session:
  "session_after (handle_phishing_followup rt orch r user_text sess uid d) = sess(pending_flow := None)"
  by (simp add: handle_phishing_followup_def Let_def split: prod.splits)

lemma handler_result:
  "fst (handle_phishing_followup rt orch r user_text sess uid d) =
     Inr \<lparr>message =
            (if isin (ustr ''oui'') (str_lower rt user_text) \<or> isin (ustr ''identifiant'') (str_lower rt user_text)
                \<or> isin (ustr ''mot de passe'') (str_lower rt user_text)
             then urgent_msg else lower_urgency_msg),
          steps =
            (if isin (ustr ''oui'') (str_lower rt user_text) \<or> isin (ustr ''identifiant'') (str_lower rt user_text)
                \<or> isin (ustr ''mot de passe'') (str_lower rt user_text)
             then urgent_steps else lower_urgency_steps),
          suggestions = [], tip = faq_tip (orch_faq orch) r, follow_up = [],
          intent = phishing_followup\<rparr>"
  by (simp add: handle_phishing_followup_def Let_def)

lemma handler_db:
  "db_after (handle_phishing_followup rt orch r user_text sess uid d) =
     save_conversation uid user_text
       (if isin (ustr ''oui'') (str_lower rt user_text) \<or> isin (ustr ''identifiant'') (str_lower rt user_text)
           \<or> isin (ustr ''mot de passe'') (str_lower rt user_text)
        then urgent_msg else lower_urgency_msg) phishing_followup d"
  by (simp add: handle_phishing_followup_def Let_def)

lemma respond_phishing:
  assumes "sess pending_flow \<noteq> Some (VStr phishing_followup)"
    and "detect_intent rt user_text = ustr ''phishing_incident''"
  shows "respond rt orch r user_text sess uid d =
     (Inr \<lparr>message = phishing_msg @ enrich_md orch (ustr ''phishing_incident''),
           steps = phishing_steps,
           suggestions = search_suggestions rt (orch_faq orch) user_text,
           tip = faq_tip (orch_faq orch) r, follow_up = phishing_follow_up,
           intent = ustr ''phishing_incident''\<rparr>,
      sess(pending_flow \<mapsto> VStr phishing_followup),
      increment_metric question_asked (ustr ''phishing_incident'')
        (save_conversation uid user_text (phishing_msg @ enrich_md orch (ustr ''phishing_incident''))
           (ustr ''phishing_incident'') d))"
  using assms by (simp add: respond_def Let_def ustr_def)

text \<open>
  The enrichment for an intent: nothing when the intent has no guidance; otherwise the
  context paragraph, then the bulleted best practices when there are some, then the bulleted
  common mistakes when there are some.
\<close>

lemma foldl_append_concat: "foldl (\<lambda>out x. out @ f x) acc xs = acc @ concat (map f xs)"
  by (induction xs arbitrary: acc) simp_all

lemma enrich_md_text:
  "enrich_md orch it =
    (case guidance orch it of
       None \<Rightarrow> []
     | Some g \<Rightarrow>
         [10, 10] @ ustr ''**Contexte :** '' @ why g
         @ (if best_practices g = [] then []
            else [10, 10] @ ustr ''**Bonnes pratiques :**'' @ [10]
                 @ concat (map (\<lambda>bp. [8226] @ ustr '' '' @ bp @ [10]) (best_practices g)))
         @ (if common_mistakes g = [] then []
            else [10] @ ustr ''**Erreurs courantes :**'' @ [10]
                 @ concat (map (\<lambda>m. [9888, 65039] @ ustr '' '' @ m @ [10])
                     (common_mistakes g))))"
proof (cases "guidance orch it")
  case None
  then show ?thesis by (simp add: enrich_md_def)
next
  case (Some g)
  have bp: "foldl (\<lambda>out bp. out @ [8226] @ ustr '' '' @ bp @ [10]) acc xs
      = acc @ concat (map (\<lambda>bp. [8226] @ ustr '' '' @ bp @ [10]) xs)" for acc xs
    by (rule foldl_append_concat)
  have cm: "foldl (\<lambda>out m. out @ [9888, 65039] @ ustr '' '' @ m @ [10]) acc xs
      = acc @ concat (map (\<lambda>m. [9888, 65039] @ ustr '' '' @ m @ [10]) xs)" for acc xs
    by (rule foldl_append_concat)
  show ?thesis
    unfolding enrich_md_def Some Let_def bp cm by simp
qed

lemma respond_default:
  assumes "sess pending_flow \<noteq> Some (VStr phishing_followup)"
    and "detect_intent rt user_text = it"
    and "it \<noteq> ustr ''greeting''" and "it \<noteq> ustr ''phishing_incident''"
    and "faq_answer (orch_faq orch) user_text = Inr (ans, score, meta)"
    and "\<not> (score < 0.15 \<and> (it = ustr ''general'' \<or> it = ustr ''incident_reporting''))"
  shows "respond rt orch r user_text sess uid d =
     (let msg = (if it = ustr ''password_security'' \<and> score < 0.3
                 then password_recovery_script @ enrich_md orch (ustr ''password_security'')
                 else if score \<ge> 0.3 then ans @ enrich_md orch it
                 else ans @ enrich_md orch (ustr ''general''))
      in (Inr \<lparr>message = msg, steps = generic_steps it,
               suggestions = search_suggestions rt (orch_faq orch) user_text,
               tip = faq_tip (orch_faq orch) r, follow_up = [], intent = it\<rparr>,
          sess,
          increment_metric question_asked it (save_conversation uid user_text msg it d)))"
  using assms unfolding respond_def by (auto simp add: Let_def)

section \<open>The phishing flow\<close>

text \<open>
  Claim C1.  In the idle state a text classified \<open>phishing_incident\<close> leaves \<open>pending_flow\<close>
  set to the followup marker; the next call, whatever its text, random draw and user, is the
  followup handler (which never classifies the text) and leaves \<open>pending_flow\<close> removed.  More
  generally every call on a session whose \<open>pending_flow\<close> is the marker is the followup handler,
  answers under the intent \<open>phishing_followup\<close> and leaves \<open>pending_flow\<close> removed.  A session
  holds one value under the one key \<open>pending_flow\<close>, so at most one flow is pending.
\<close>

theorem phishing_flow_set_then_cleared:
  "(sess pending_flow \<noteq> Some (VStr phishing_followup)
      \<and> detect_intent rt user_text = ustr ''phishing_incident''
    \<longrightarrow> session_after (respond rt orch r user_text sess uid d) pending_flow
          = Some (VStr phishing_followup)
        \<and> respond rt orch r' user_text' (session_after (respond rt orch r user_text sess uid d)) uid'
              (db_after (respond rt orch r user_text sess uid d))
          = handle_phishing_followup rt orch r' user_text'
              (session_after (respond rt orch r user_text sess uid d)) uid'
              (db_after (respond rt orch r user_text sess uid d))
        \<and> session_after
             (respond rt orch r' user_text' (session_after (respond rt orch r user_text sess uid d)) uid'
                (db_after (respond rt orch r user_text sess uid d))) pending_flow = None)
   \<and> (sess pending_flow = Some (VStr phishing_followup)
    \<longrightarrow> respond rt orch r user_text sess uid d = handle_phishing_followup rt orch r user_text sess uid d
        \<and> session_after (respond rt orch r user_text sess uid d) pending_flow = None
        \<and> (\<exists>resp. fst (respond rt orch r user_text sess uid d) = Inr resp
                   \<and> intent resp = phishing_followup))"
proof (intro conjI impI)
  assume a: "sess pending_flow \<noteq> Some (VStr phishing_followup)
      \<and> detect_intent rt user_text = ustr ''phishing_incident''"
  let ?out = "respond rt orch r user_text sess uid d"
  from a have out: "session_after ?out = sess(pending_flow \<mapsto> VStr phishing_followup)"
    by (simp add: respond_phishing)
  then show set: "session_after ?out pending_flow = Some (VStr phishing_followup)" by simp
  then show next_call: "respond rt orch r' user_text' (session_after ?out) uid' (db_after ?out)
      = handle_phishing_followup rt orch r' user_text' (session_after ?out) uid' (db_after ?out)"
    by (rule respond_pending)
  show "session_after (respond rt orch r' user_text' (session_after ?out) uid' (db_after ?out))
          pending_flow = None"
    by (simp only: next_call handler_session) simp
next
  assume p: "sess pending_flow = Some (VStr phishing_followup)"
  then show eq: "respond rt orch r user_text sess uid d
      = handle_phishing_followup rt orch r user_text sess uid d"
    by (rule respond_pending)
  show "session_after (respond rt orch r user_text sess uid d) pending_flow = None"
    by (simp only: eq handler_session) simp
  show "\<exists>resp. fst (respond rt orch r user_text sess uid d) = Inr resp
                   \<and> intent resp = phishing_followup"
    by (simp only: eq handler_result) simp
qed

theorem phishing_flow_set_then_cleared_witness:
  "(Map.empty :: session) pending_flow \<noteq> Some (VStr phishing_followup)
   \<and> detect_intent py (ustr ''lien suspect'') = ustr ''phishing_incident''
   \<and> detect_intent py (ustr ''bonjour'') = ustr ''greeting''
   \<and> session_after (respond py (demo_orch [0.5, 0.2, 0.4]) 0 (ustr ''lien suspect'') Map.empty (ustr ''anonymous'') db0)
         pending_flow = Some (VStr phishing_followup)
   \<and> session_after
        (respond py (demo_orch [0.5, 0.2, 0.4]) 1 (ustr ''bonjour'')
           (session_after (respond py (demo_orch [0.5, 0.2, 0.4]) 0 (ustr ''lien suspect'') Map.empty (ustr ''anonymous'') db0))
           (ustr ''anonymous'')
           (db_after (respond py (demo_orch [0.5, 0.2, 0.4]) 0 (ustr ''lien suspect'') Map.empty (ustr ''anonymous'') db0)))
         pending_flow = None"
proof -
  have h: "(Map.empty :: session) pending_flow \<noteq> Some (VStr phishing_followup)
      \<and> detect_intent py (ustr ''lien suspect'') = ustr ''phishing_incident''"
    by (simp add: intent_eval)
  have g: "detect_intent py (ustr ''bonjour'') = ustr ''greeting''"
    by (simp add: intent_eval)
  from phishing_flow_set_then_cleared
    [where sess = Map.empty and rt = py and user_text = "ustr ''lien suspect''"
       and orch = "demo_orch [0.5, 0.2, 0.4]" and r = 0 and uid = "ustr ''anonymous''"
       and d = db0 and r' = 1 and user_text' = "ustr ''bonjour''"
       and uid' = "ustr ''anonymous''"] h g
  show ?thesis by blast
qed

text \<open>
  Claim C8.  With a phishing followup pending, the answer is decided by the lower-cased text:
  if it contains \<open>oui\<close>, \<open>identifiant\<close> or \<open>mot de passe\<close>, the urgent remediation with its four
  steps, otherwise the lower-urgency remediation with its three steps; in both cases without
  suggestions.
\<close>

theorem followup_keyword_gated:
  assumes "sess pending_flow = Some (VStr phishing_followup)"
  shows "\<exists>resp. fst (respond rt orch r user_text sess uid d) = Inr resp
      \<and> suggestions resp = []
      \<and> (if isin (ustr ''oui'') (str_lower rt user_text)
              \<or> isin (ustr ''identifiant'') (str_lower rt user_text)
              \<or> isin (ustr ''mot de passe'') (str_lower rt user_text)
         then message resp = urgent_msg \<and> steps resp = urgent_steps \<and> length (steps resp) = 4
         else message resp = lower_urgency_msg \<and> steps resp = lower_urgency_steps
              \<and> length (steps resp) = 3)"
proof -
  have "length urgent_steps = 4" by (simp add: urgent_steps_def)
  moreover have "length lower_urgency_steps = 3" by (simp add: lower_urgency_steps_def)
  ultimately show ?thesis
    using assms by (simp add: respond_pending handler_result)
qed

theorem followup_keyword_gated_witness:
  "[pending_flow \<mapsto> VStr phishing_followup] pending_flow = Some (VStr phishing_followup)
   \<and> isin (ustr ''oui'') (str_lower py (ustr ''Oui''))
   \<and> (\<exists>resp. fst (respond py (demo_orch [0.5, 0.2, 0.4]) 0 (ustr ''Oui'')
                      [pending_flow \<mapsto> VStr phishing_followup] (ustr ''anonymous'') db0) = Inr resp
          \<and> suggestions resp = [] \<and> message resp = urgent_msg
          \<and> steps resp = urgent_steps \<and> length (steps resp) = 4)"
proof -
  have h: "[pending_flow \<mapsto> VStr phishing_followup] pending_flow
      = Some (VStr phishing_followup)"
    by simp
  have c: "isin (ustr ''oui'') (str_lower py (ustr ''Oui''))"
    by (simp add: py_def lower_latin1_def ustr_def)
  from followup_keyword_gated
    [where sess = "[pending_flow \<mapsto> VStr phishing_followup]" and rt = py
       and user_text = "ustr ''Oui''" and orch = "demo_orch [0.5, 0.2, 0.4]"
       and r = 0 and uid = "ustr ''anonymous''" and d = db0, OF h] c
  have "\<exists>resp. fst (respond py (demo_orch [0.5, 0.2, 0.4]) 0 (ustr ''Oui'')
                      [pending_flow \<mapsto> VStr phishing_followup] (ustr ''anonymous'') db0) = Inr resp
          \<and> suggestions resp = [] \<and> message resp = urgent_msg
          \<and> steps resp = urgent_steps \<and> length (steps resp) = 4"
    by (simp only: if_True simp_thms)
  with h c show ?thesis by (intro conjI)
qed

section \<open>The password fallback\<close>

text \<open>
  Claim C9.  In the idle state, for a text classified \<open>password_security\<close> whose retrieval
  score is below 0.3, the message is the fixed password-recovery script, followed by the
  guidance block of \<open>password_security\<close>: nothing when the knowledge
  base has no such block; otherwise its context paragraph, its bulleted best practices when
  there are some and its bulleted common mistakes when there are some.  (Such a text never
  meets the clarification branch, which asks for the intent \<open>general\<close> or
  \<open>incident_reporting\<close>.)
\<close>

theorem password_low_confidence_fallback:
  assumes "sess pending_flow \<noteq> Some (VStr phishing_followup)"
    and "detect_intent rt user_text = ustr ''password_security''"
    and "faq_answer (orch_faq orch) user_text = Inr (ans, score, meta)"
    and "score < 0.3"
  shows "\<exists>resp. fst (respond rt orch r user_text sess uid d) = Inr resp
      \<and> message resp =
          password_recovery_script
          @ (case guidance orch (ustr ''password_security'') of
               None \<Rightarrow> []
             | Some g \<Rightarrow>
                 [10, 10] @ ustr ''**Contexte :** '' @ why g
                 @ (if best_practices g = [] then []
                    else [10, 10] @ ustr ''**Bonnes pratiques :**'' @ [10]
                         @ concat (map (\<lambda>bp. [8226] @ ustr '' '' @ bp @ [10]) (best_practices g)))
                 @ (if common_mistakes g = [] then []
                    else [10] @ ustr ''**Erreurs courantes :**'' @ [10]
                         @ concat (map (\<lambda>m. [9888, 65039] @ ustr '' '' @ m @ [10])
                             (common_mistakes g))))"
proof -
  have "ustr ''password_security'' \<noteq> ustr ''greeting''"
    and "ustr ''password_security'' \<noteq> ustr ''phishing_incident''"
    and "ustr ''password_security'' \<noteq> ustr ''general''"
    and "ustr ''password_security'' \<noteq> ustr ''incident_reporting''"
    by (simp_all add: ustr_def)
  then have "\<exists>resp. fst (respond rt orch r user_text sess uid d) = Inr resp
      \<and> message resp = password_recovery_script @ enrich_md orch (ustr ''password_security'')"
    using assms by (simp add: respond_default [where it = "ustr ''password_security''"] Let_def)
  then show ?thesis by (simp only: enrich_md_text)
qed

section \<open>The session frame\<close>

text \<open>
  Claim C10.  A call of \<open>respond\<close> leaves every session key other than \<open>pending_flow\<close> as it
  was; \<open>pending_flow\<close> is left as it was, set to \<open>phishing_followup\<close> or removed; and the
  response and the database depend on the session through \<open>pending_flow\<close> only.
\<close>

theorem respond_session_frame:
  "(\<forall>k. k \<noteq> pending_flow \<longrightarrow> session_after (respond rt orch r user_text sess uid d) k = sess k)
   \<and> (session_after (respond rt orch r user_text sess uid d) pending_flow = sess pending_flow
      \<or> session_after (respond rt orch r user_text sess uid d) pending_flow
          = Some (VStr phishing_followup)
      \<or> session_after (respond rt orch r user_text sess uid d) pending_flow = None)
   \<and> (sess' pending_flow = sess pending_flow
      \<longrightarrow> fst (respond rt orch r user_text sess' uid d) = fst (respond rt orch r user_text sess uid d)
        \<and> db_after (respond rt orch r user_text sess' uid d)
          = db_after (respond rt orch r user_text sess uid d))"
  by (auto simp add: respond_def handle_phishing_followup_def Let_def
        split: sum.splits prod.splits)

theorem respond_session_frame_witness:
  "ustr ''user'' \<noteq> pending_flow
   \<and> session_after (respond py (demo_orch [0.5, 0.2, 0.4]) 0 (ustr ''lien suspect'')
         [ustr ''user'' \<mapsto> VStr (ustr ''bob'')] (ustr ''anonymous'') db0) (ustr ''user'')
       = [ustr ''user'' \<mapsto> VStr (ustr ''bob'')] (ustr ''user'')
   \<and> (Map.empty :: session) pending_flow = [ustr ''user'' \<mapsto> VStr (ustr ''bob'')] pending_flow
   \<and> fst (respond py (demo_orch [0.5, 0.2, 0.4]) 0 (ustr ''lien suspect'') Map.empty (ustr ''anonymous'') db0)
       = fst (respond py (demo_orch [0.5, 0.2, 0.4]) 0 (ustr ''lien suspect'')
           [ustr ''user'' \<mapsto> VStr (ustr ''bob'')] (ustr ''anonymous'') db0)"
proof -
  have k: "ustr ''user'' \<noteq> pending_flow" by (simp add: pending_flow_def ustr_def)
  then have e: "(Map.empty :: session) pending_flow
      = [ustr ''user'' \<mapsto> VStr (ustr ''bob'')] pending_flow"
    by simp
  from respond_session_frame
    [where rt = py and orch = "demo_orch [0.5, 0.2, 0.4]" and r = 0
       and user_text = "ustr ''lien suspect''"
       and sess = "[ustr ''user'' \<mapsto> VStr (ustr ''bob'')]" and sess' = Map.empty
       and uid = "ustr ''anonymous''" and d = db0] k e
  show ?thesis by blast
qed

section \<open>The retriever\<close>

text \<open>\<open>argmax\<close> returns an index of a greatest element of a non-empty array.\<close>

lemma argmax_aux_cases:
  "(argmax_aux b bv i xs = b \<and> (\<forall>x \<in> set xs. x \<le> bv))
   \<or> (\<exists>j<length xs. argmax_aux b bv i xs = i + j \<and> bv < xs ! j \<and> (\<forall>x \<in> set xs. x \<le> xs ! j))"
proof (induction xs arbitrary: b bv i)
  case Nil
  show ?case by simp
next
  case (Cons x xs)
  show ?case
  proof (cases "bv < x")
    case True
    from Cons.IH [of i x "Suc i"] show ?thesis
    proof
      assume "argmax_aux i x (Suc i) xs = i \<and> (\<forall>y \<in> set xs. y \<le> x)"
      with True have "argmax_aux b bv i (x # xs) = i + 0 \<and> bv < (x # xs) ! 0
          \<and> (\<forall>y \<in> set (x # xs). y \<le> (x # xs) ! 0)" by simp
      then show ?thesis by blast
    next
      assume "\<exists>j<length xs. argmax_aux i x (Suc i) xs = Suc i + j \<and> x < xs ! j
          \<and> (\<forall>y \<in> set xs. y \<le> xs ! j)"
      then obtain j where j: "j < length xs" "argmax_aux i x (Suc i) xs = Suc i + j"
          "x < xs ! j" "\<forall>y \<in> set xs. y \<le> xs ! j" by blast
      with True have "Suc j < length (x # xs) \<and> argmax_aux b bv i (x # xs) = i + Suc j
          \<and> bv < (x # xs) ! Suc j \<and> (\<forall>y \<in> set (x # xs). y \<le> (x # xs) ! Suc j)" by auto
      then show ?thesis by blast
    qed
  next
    case False
    from Cons.IH [of b bv "Suc i"] show ?thesis
    proof
      assume "argmax_aux b bv (Suc i) xs = b \<and> (\<forall>y \<in> set xs. y \<le> bv)"
      with False show ?thesis by auto
    next
      assume "\<exists>j<length xs. argmax_aux b bv (Suc i) xs = Suc i + j \<and> bv < xs ! j
          \<and> (\<forall>y \<in> set xs. y \<le> xs ! j)"
      then obtain j where j: "j < length xs" "argmax_aux b bv (Suc i) xs = Suc i + j"
          "bv < xs ! j" "\<forall>y \<in> set xs. y \<le> xs ! j" by blast
      with False have "Suc j < length (x # xs) \<and> argmax_aux b bv i (x # xs) = i + Suc j
          \<and> bv < (x # xs) ! Suc j \<and> (\<forall>y \<in> set (x # xs). y \<le> (x # xs) ! Suc j)" by auto
      then show ?thesis by blast
    qed
  qed
qed

lemma argmax_Some:
  assumes "xs \<noteq> []"
  shows "\<exists>i<length xs. argmax xs = Some i \<and> (\<forall>j<length xs. xs ! j \<le> xs ! i)"
proof -
  from assms obtain x rest where xs: "xs = x # rest" by (cases xs) auto
  have "\<exists>i<length xs. argmax xs = Some i \<and> (\<forall>y \<in> set xs. y \<le> xs ! i)"
    using argmax_aux_cases [of 0 x 1 rest]
  proof
    assume "argmax_aux 0 x 1 rest = 0 \<and> (\<forall>y \<in> set rest. y \<le> x)"
    then have "0 < length xs \<and> argmax xs = Some 0 \<and> (\<forall>y \<in> set xs. y \<le> xs ! 0)"
      by (simp add: xs argmax_def)
    then show ?thesis by blast
  next
    assume "\<exists>j<length rest. argmax_aux 0 x 1 rest = 1 + j \<and> x < rest ! j
        \<and> (\<forall>y \<in> set rest. y \<le> rest ! j)"
    then obtain j where j: "j < length rest" "argmax_aux 0 x 1 rest = 1 + j" "x < rest ! j"
        "\<forall>y \<in> set rest. y \<le> rest ! j" by blast
    then have "Suc j < length xs \<and> argmax xs = Some (Suc j)
        \<and> (\<forall>y \<in> set xs. y \<le> xs ! Suc j)"
      by (simp add: xs argmax_def)
    then show ?thesis by blast
  qed
  then obtain i where "i < length xs" "argmax xs = Some i" "\<forall>y \<in> set xs. y \<le> xs ! i"
    by blast
  then have "i < length xs \<and> argmax xs = Some i \<and> (\<forall>j<length xs. xs ! j \<le> xs ! i)"
    by simp
  then show ?thesis by blast
qed

lemma length_sims [simp]: "length (sims a q) = length (faq a)"
  by (simp add: sims_def)

lemma row_answer [simp]: "dict_get (to_dict e) (ustr ''answer'') [] = answer e"
  by (simp add: dict_get_def to_dict_def ustr_def)

lemma row_question [simp]: "dict_get (to_dict e) (ustr ''question'') [] = question e"
  by (simp add: dict_get_def to_dict_def ustr_def)

lemma faq_answer_nonblank:
  assumes "\<not> blank q" and "faq a \<noteq> []"
  shows "\<exists>i<length (faq a). argmax (sims a q) = Some i
      \<and> (\<forall>j<length (faq a). sims a q ! j \<le> sims a q ! i)
      \<and> faq_answer a q =
          Inr (if sims a q ! i \<ge> min_similarity a then answer (faq a ! i) else fallback_msg,
               sims a q ! i,
               if sims a q ! i \<ge> min_similarity a then to_dict (faq a ! i) else [])"
proof -
  from assms(2) have "sims a q \<noteq> []" by (simp add: sims_def)
  from argmax_Some [OF this] obtain i where i: "i < length (faq a)"
      "argmax (sims a q) = Some i" "\<forall>j<length (faq a). sims a q ! j \<le> sims a q ! i"
    by auto
  with assms(1) show ?thesis by (intro exI [of _ i]) (simp add: faq_answer_def Let_def)
qed

lemma collect_eq:
  "collect a s idxs = map (\<lambda>i. (to_dict (faq a ! i), s ! i)) (filter (\<lambda>i. s ! i \<ge> 0.10) idxs)"
  by (induction idxs) (simp_all add: Let_def)

lemma length_slice_to: "0 \<le> k \<Longrightarrow> length (slice_to k xs) \<le> nat k"
  by (simp add: slice_to_def)

lemma slice_to_take: "0 \<le> k \<Longrightarrow> slice_to k xs = take (nat k) xs"
  by (simp add: slice_to_def)

lemma length_filter_take: "length (filter P (take n xs)) \<le> length (filter P xs)"
proof -
  have "length (filter P xs) = length (filter P (take n xs)) + length (filter P (drop n xs))"
    by (metis append_take_drop_id filter_append length_append)
  then show ?thesis by simp
qed

lemma stable_argsort_ok: "argsort_ok stable_argsort xs"
  by (simp add: argsort_ok_def stable_argsort_def)

lemma demo_sims [simp]: "sims (demo_agent [x, y, z]) q = [x, y, z]"
  by (simp add: sims_def demo_agent_def demo_faq_def)

lemma demo_agent_fields [simp]:
  "faq (demo_agent sc) = demo_faq"
  "tips (demo_agent sc) = [ustr ''Verrouillez votre session.'']"
  "min_similarity (demo_agent sc) = 0.15"
  by (simp_all add: demo_agent_def)

lemma demo_not_blank:
  "\<not> blank (ustr ''vpn'')" "\<not> blank (ustr ''Merci'')" "\<not> blank (ustr ''mot de passe oublie'')"
  "\<not> blank (ustr ''lien suspect'')"
  by (simp_all add: blank_def strip_def isspace_def ustr_def)

text \<open>
  Claim C5.  For every query and every count \<open>top_k\<close> (a number of results, so \<open>top_k \<ge> 0\<close>),
  when \<open>argsort\<close> meets its contract on the scores of the query, \<open>search\<close> returns at most
  \<open>top_k\<close> results, each with a score of at least 0.10, in non-increasing order of score, and
  no more results than there are entries whose score reaches 0.10 (so fewer than \<open>top_k\<close>
  when fewer than \<open>top_k\<close> entries reach the floor); each result is an entry of the knowledge
  base with its own score.
\<close>

theorem search_top_k:
  assumes ok: "argsort_ok (np_argsort rt) (sims a query)" and k: "0 \<le> top_k"
  shows "length (faq_search rt a query top_k) \<le> nat top_k
     \<and> list_all (\<lambda>p. snd p \<ge> 0.10) (faq_search rt a query top_k)
     \<and> sorted_wrt (\<ge>) (map snd (faq_search rt a query top_k))
     \<and> length (faq_search rt a query top_k)
          \<le> card {i. i < length (faq a) \<and> sims a query ! i \<ge> 0.10}
     \<and> list_all (\<lambda>p. \<exists>i<length (faq a). p = (to_dict (faq a ! i), sims a query ! i))
          (faq_search rt a query top_k)"
proof (cases "blank query")
  case True
  then show ?thesis by (simp add: faq_search_def)
next
  case False
  let ?s = "sims a query"
  let ?P = "\<lambda>i. ?s ! i \<ge> 0.10"
  let ?ys = "rev (np_argsort rt ?s)"
  let ?sel = "filter ?P (take (nat top_k) ?ys)"
  from False k have res: "faq_search rt a query top_k
      = map (\<lambda>i. (to_dict (faq a ! i), ?s ! i)) ?sel"
    by (simp add: faq_search_def Let_def collect_eq slice_to_take)
  from ok have dist: "distinct ?ys" and set_ys: "set ?ys = {0..<length (faq a)}"
    and srt: "sorted (map (\<lambda>i. ?s ! i) (np_argsort rt ?s))"
    by (simp_all add: argsort_ok_def)
  have len: "length ?sel \<le> nat top_k"
    by (rule order_trans [OF length_filter_le]) simp
  have floor_ok: "list_all ?P ?sel" by (simp add: list_all_iff)
  from srt have "sorted_wrt (\<lambda>i j. ?s ! i \<le> ?s ! j) (np_argsort rt ?s)"
    by (simp add: sorted_wrt_map)
  then have "sorted_wrt (\<lambda>i j. ?s ! i \<ge> ?s ! j) ?ys"
    by (simp add: sorted_wrt_rev)
  then have "sorted_wrt (\<lambda>i j. ?s ! i \<ge> ?s ! j) ?sel"
    by (intro sorted_wrt_filter sorted_wrt_take)
  then have desc: "sorted_wrt (\<ge>) (map (\<lambda>i. ?s ! i) ?sel)"
    by (simp add: sorted_wrt_map)
  have "length ?sel \<le> length (filter ?P ?ys)" by (rule length_filter_take)
  also from dist have "\<dots> = card ({i. ?P i} \<inter> set ?ys)" by (rule distinct_length_filter)
  also have "{i. ?P i} \<inter> set ?ys = {i. i < length (faq a) \<and> ?P i}"
  proof -
    from set_ys have "set ?ys = {i. i < length (faq a)}"
      by (simp only: atLeast0LessThan lessThan_def)
    then show ?thesis by blast
  qed
  finally have cnt: "length ?sel \<le> card {i. i < length (faq a) \<and> ?P i}" .
  have "set ?sel \<subseteq> set ?ys" by (auto dest: in_set_takeD)
  with set_ys have inb: "list_all (\<lambda>i. i < length (faq a)) ?sel"
    by (auto simp add: list_all_iff)
  have c1: "length (faq_search rt a query top_k) \<le> nat top_k"
    unfolding res using len by simp
  have c2: "list_all (\<lambda>p. snd p \<ge> 0.10) (faq_search rt a query top_k)"
    unfolding res by (simp add: list_all_iff)
  have "map snd (map (\<lambda>i. (to_dict (faq a ! i), ?s ! i)) ?sel) = map (\<lambda>i. ?s ! i) ?sel"
    by simp
  with desc have c3: "sorted_wrt (\<ge>) (map snd (faq_search rt a query top_k))"
    unfolding res by (simp only:)
  have c4: "length (faq_search rt a query top_k)
      \<le> card {i. i < length (faq a) \<and> sims a query ! i \<ge> 0.10}"
    unfolding res using cnt by (simp only: length_map)
  have c5: "list_all (\<lambda>p. \<exists>i<length (faq a). p = (to_dict (faq a ! i), sims a query ! i))
      (faq_search rt a query top_k)"
    unfolding res list_all_iff
  proof
    fix p
    assume "p \<in> set (map (\<lambda>i. (to_dict (faq a ! i), ?s ! i)) ?sel)"
    then obtain i where i: "i \<in> set ?sel" and p: "p = (to_dict (faq a ! i), ?s ! i)"
      by (auto simp only: set_map)
    from inb i have "i < length (faq a)" unfolding list_all_iff by blast
    with p show "\<exists>i<length (faq a). p = (to_dict (faq a ! i), ?s ! i)" by blast
  qed
  from c1 c2 c3 c4 c5 show ?thesis by (intro conjI)
qed

theorem search_top_k_witness:
  "argsort_ok (np_argsort py) (sims (demo_agent [0.5, 0.05, 0.4]) (ustr ''vpn''))
   \<and> (0 :: int) \<le> 3
   \<and> faq_search py (demo_agent [0.5, 0.05, 0.4]) (ustr ''vpn'') 3
       = [(to_dict (demo_faq ! 0), 0.5), (to_dict (demo_faq ! 2), 0.4)]
   \<and> length (faq_search py (demo_agent [0.5, 0.05, 0.4]) (ustr ''vpn'') 3) \<le> nat 3
   \<and> list_all (\<lambda>p. snd p \<ge> 0.10) (faq_search py (demo_agent [0.5, 0.05, 0.4]) (ustr ''vpn'') 3)
   \<and> sorted_wrt (\<ge>) (map snd (faq_search py (demo_agent [0.5, 0.05, 0.4]) (ustr ''vpn'') 3))
   \<and> length (faq_search py (demo_agent [0.5, 0.05, 0.4]) (ustr ''vpn'') 3)
       \<le> card {i. i < length (faq (demo_agent [0.5, 0.05, 0.4])) \<and> sims (demo_agent [0.5, 0.05, 0.4]) (ustr ''vpn'') ! i \<ge> 0.10}"
proof -
  have h1: "argsort_ok (np_argsort py) (sims (demo_agent [0.5, 0.05, 0.4]) (ustr ''vpn''))"
    by (simp add: py_def stable_argsort_ok)
  have h2: "(0 :: int) \<le> 3" by simp
  have e: "faq_search py (demo_agent [0.5, 0.05, 0.4]) (ustr ''vpn'') 3
      = [(to_dict (demo_faq ! 0), 0.5), (to_dict (demo_faq ! 2), 0.4)]"
    by (simp add: faq_search_def demo_not_blank Let_def py_def stable_argsort_def slice_to_def
          numeral_2_eq_2)
  from search_top_k [OF h1 h2] h1 h2 e show ?thesis by blast
qed

section \<open>Running the orchestrator on the small knowledge base\<close>

lemma demo_orch_fields [simp]:
  "orch_faq (demo_orch sc) = demo_agent sc"
  "guidance (demo_orch sc) = demo_guidance"
  by (simp_all add: demo_orch_def)

lemma demo_guidance_lookup:
  "demo_guidance (ustr ''vpn'') = Some demo_vpn_guidance"
  "demo_guidance (ustr ''password_security'') = Some demo_password_guidance"
  by (simp_all add: demo_guidance_def ustr_def)

lemma demo_tip [simp]: "faq_tip (demo_agent sc) r = ustr ''Verrouillez votre session.''"
  by (simp add: faq_tip_def)

lemma demo_intents:
  "detect_intent py (ustr ''vpn'') = ustr ''vpn''"
  "detect_intent py (ustr ''Merci'') = ustr ''general''"
  "detect_intent py (ustr ''bonjour'') = ustr ''greeting''"
  "detect_intent py (ustr ''mot de passe oublie'') = ustr ''password_security''"
  by (simp_all add: intent_eval)

lemma demo_answers:
  "faq_answer (demo_agent [0.5, 0.2, 0.4]) (ustr ''vpn'')
     = Inr (answer (demo_faq ! 0), 0.5, to_dict (demo_faq ! 0))"
  "faq_answer (demo_agent [0.05, 0.02, 0.01]) (ustr ''vpn'') = Inr (fallback_msg, 0.05, [])"
  "faq_answer (demo_agent [0.05, 0.02, 0.01]) (ustr ''Merci'') = Inr (fallback_msg, 0.05, [])"
  "faq_answer (demo_agent [0.1, 0.2, 0.05]) (ustr ''mot de passe oublie'')
     = Inr (answer (demo_faq ! 1), 0.2, to_dict (demo_faq ! 1))"
  by (simp_all add: faq_answer_def demo_not_blank argmax_def Let_def)

lemma demo_low_suggestions:
  "search_suggestions py (demo_agent [0.05, 0.02, 0.01]) (ustr ''vpn'') = []"
  by (simp add: search_suggestions_def faq_search_def demo_not_blank Let_def py_def
        stable_argsort_def slice_to_def)

lemma faq_answer_Inr_nonempty:
  assumes "faq_answer a q = Inr x" and "\<not> blank q"
  shows "faq a \<noteq> []"
proof
  assume "faq a = []"
  then have "sims a q = []" by (simp add: sims_def)
  with assms(2) have "faq_answer a q = Inl ValueError"
    by (simp add: faq_answer_def argmax_def)
  with assms(1) show False by simp
qed

section \<open>The default branch\<close>

text \<open>
  Claim C3 as stated fails: when the best score is below \<open>min_similarity\<close> (0.15), \<open>answer\<close>
  returns its fixed fallback advice and not the answer of the best-matching entry.  Here the
  text is classified \<open>vpn\<close>, the best entry is entry 0 with score 0.05, and the message is the
  fallback advice followed by the \<open>general\<close> guidance.
\<close>

theorem default_branch_low_score_counterexample:
  "(Map.empty :: session) pending_flow \<noteq> Some (VStr phishing_followup)
   \<and> detect_intent py (ustr ''vpn'') = ustr ''vpn''
   \<and> argmax (sims (demo_agent [0.05, 0.02, 0.01]) (ustr ''vpn'')) = Some 0
   \<and> sims (demo_agent [0.05, 0.02, 0.01]) (ustr ''vpn'') ! 0 = 0.05
   \<and> fst (respond py (demo_orch [0.05, 0.02, 0.01]) 0 (ustr ''vpn'') Map.empty (ustr ''anonymous'') db0)
       = Inr \<lparr>message = fallback_msg @ enrich_md (demo_orch [0.05, 0.02, 0.01]) (ustr ''general''),
              steps = generic_steps (ustr ''vpn''), suggestions = [],
              tip = ustr ''Verrouillez votre session.'', follow_up = [],
              intent = ustr ''vpn''\<rparr>
   \<and> fallback_msg @ enrich_md (demo_orch [0.05, 0.02, 0.01]) (ustr ''general'')
       \<noteq> answer (demo_faq ! 0) @ enrich_md (demo_orch [0.05, 0.02, 0.01]) (ustr ''general'')"
proof -
  have idle: "(Map.empty :: session) pending_flow \<noteq> Some (VStr phishing_followup)" by simp
  have am: "argmax (sims (demo_agent [0.05, 0.02, 0.01]) (ustr ''vpn'')) = Some 0"
    and sc: "sims (demo_agent [0.05, 0.02, 0.01]) (ustr ''vpn'') ! 0 = 0.05"
    by (simp_all add: argmax_def)
  have ne: "ustr ''vpn'' \<noteq> ustr ''greeting''" "ustr ''vpn'' \<noteq> ustr ''phishing_incident''"
      "ustr ''vpn'' \<noteq> ustr ''general''" "ustr ''vpn'' \<noteq> ustr ''incident_reporting''"
      "ustr ''vpn'' \<noteq> ustr ''password_security''"
    by (simp_all add: ustr_def)
  have a: "faq_answer (orch_faq (demo_orch [0.05, 0.02, 0.01])) (ustr ''vpn'')
      = Inr (fallback_msg, 0.05, [])"
    using demo_answers by simp
  have nc: "\<not> ((0.05 :: real) < 0.15
      \<and> (ustr ''vpn'' = ustr ''general'' \<or> ustr ''vpn'' = ustr ''incident_reporting''))"
    using ne by simp
  have r: "fst (respond py (demo_orch [0.05, 0.02, 0.01]) 0 (ustr ''vpn'') Map.empty (ustr ''anonymous'') db0)
       = Inr \<lparr>message = fallback_msg @ enrich_md (demo_orch [0.05, 0.02, 0.01]) (ustr ''general''),
              steps = generic_steps (ustr ''vpn''), suggestions = [],
              tip = ustr ''Verrouillez votre session.'', follow_up = [],
              intent = ustr ''vpn''\<rparr>"
    unfolding respond_default [where sess = Map.empty, OF idle demo_intents(1) ne(1) ne(2) a nc]
    using ne(5) demo_low_suggestions by (simp add: Let_def)
  have d: "fallback_msg @ enrich_md (demo_orch [0.05, 0.02, 0.01]) (ustr ''general'')
       \<noteq> answer (demo_faq ! 0) @ enrich_md (demo_orch [0.05, 0.02, 0.01]) (ustr ''general'')"
    by (simp add: fallback_msg_def demo_faq_def ustr_def)
  from idle demo_intents(1) am sc r d show ?thesis by (intro conjI)
qed

text \<open>
  Claim C3, as amended.  In the idle default branch (the intent is neither \<open>greeting\<close> nor
  \<open>phishing_incident\<close>, the clarification condition does not hold and the password fallback
  does not apply) the message is the text returned by \<open>answer\<close>, followed by the guidance
  block of the current intent when the score is at least 0.3 and by the guidance block of
  \<open>general\<close> when it is below 0.3.  The guidance block contributes nothing when the knowledge
  base has none for that intent; otherwise its context paragraph, its bulleted best practices
  when there are some and its bulleted common mistakes when there are some.  For a non-blank
  text the score is that of a best-matching entry, and the text returned by \<open>answer\<close> is the
  answer of that entry when the score reaches \<open>min_similarity\<close>, and the fixed fallback advice
  otherwise; for a blank text it is the fixed prompt for input, with score 0.
\<close>

theorem default_branch_message:
  assumes idle: "sess pending_flow \<noteq> Some (VStr phishing_followup)"
    and it: "detect_intent rt user_text = it"
    and ng: "it \<noteq> ustr ''greeting''" and np: "it \<noteq> ustr ''phishing_incident''"
    and a: "faq_answer (orch_faq orch) user_text = Inr (ans, score, meta)"
    and nc: "\<not> (score < 0.15 \<and> (it = ustr ''general'' \<or> it = ustr ''incident_reporting''))"
    and nf: "\<not> (it = ustr ''password_security'' \<and> score < 0.3)"
  shows "(\<exists>resp. fst (respond rt orch r user_text sess uid d) = Inr resp
            \<and> message resp =
                ans
                @ (case guidance orch (if score \<ge> 0.3 then it else ustr ''general'') of
                     None \<Rightarrow> []
                   | Some g \<Rightarrow>
                       [10, 10] @ ustr ''**Contexte :** '' @ why g
                       @ (if best_practices g = [] then []
                          else [10, 10] @ ustr ''**Bonnes pratiques :**'' @ [10]
                               @ concat (map (\<lambda>bp. [8226] @ ustr '' '' @ bp @ [10]) (best_practices g)))
                       @ (if common_mistakes g = [] then []
                          else [10] @ ustr ''**Erreurs courantes :**'' @ [10]
                               @ concat (map (\<lambda>m. [9888, 65039] @ ustr '' '' @ m @ [10])
                                   (common_mistakes g)))))
     \<and> (blank user_text \<longrightarrow> ans = empty_query_msg \<and> score = 0)
     \<and> (\<not> blank user_text \<longrightarrow>
          (\<exists>i<length (faq (orch_faq orch)).
              argmax (sims (orch_faq orch) user_text) = Some i
            \<and> (\<forall>j<length (faq (orch_faq orch)).
                  sims (orch_faq orch) user_text ! j \<le> sims (orch_faq orch) user_text ! i)
            \<and> score = sims (orch_faq orch) user_text ! i
            \<and> ans = (if score \<ge> min_similarity (orch_faq orch)
                       then answer (faq (orch_faq orch) ! i) else fallback_msg)))"
proof (intro conjI impI)
  from nf have "(it = ustr ''password_security'' \<and> score < 0.3) = False" by blast
  then have "\<exists>resp. fst (respond rt orch r user_text sess uid d) = Inr resp
      \<and> message resp = ans @ enrich_md orch (if score \<ge> 0.3 then it else ustr ''general'')"
    unfolding respond_default [where sess = sess, OF idle it ng np a nc] Let_def
    by (simp only: if_False fst_conv) simp
  then show "\<exists>resp. fst (respond rt orch r user_text sess uid d) = Inr resp
      \<and> message resp =
          ans
          @ (case guidance orch (if score \<ge> 0.3 then it else ustr ''general'') of
               None \<Rightarrow> []
             | Some g \<Rightarrow>
                 [10, 10] @ ustr ''**Contexte :** '' @ why g
                 @ (if best_practices g = [] then []
                    else [10, 10] @ ustr ''**Bonnes pratiques :**'' @ [10]
                         @ concat (map (\<lambda>bp. [8226] @ ustr '' '' @ bp @ [10]) (best_practices g)))
                 @ (if common_mistakes g = [] then []
                    else [10] @ ustr ''**Erreurs courantes :**'' @ [10]
                         @ concat (map (\<lambda>m. [9888, 65039] @ ustr '' '' @ m @ [10])
                             (common_mistakes g))))"
    by (simp only: enrich_md_text)
next
  assume "blank user_text"
  with a show "ans = empty_query_msg" and "score = 0" by (simp_all add: faq_answer_def)
next
  assume nb: "\<not> blank user_text"
  let ?a = "orch_faq orch"
  from a nb have "faq ?a \<noteq> []" by (rule faq_answer_Inr_nonempty)
  from faq_answer_nonblank [OF nb this] obtain i where i: "i < length (faq ?a)"
      "argmax (sims ?a user_text) = Some i"
      "\<forall>j<length (faq ?a). sims ?a user_text ! j \<le> sims ?a user_text ! i"
      "faq_answer ?a user_text =
          Inr (if sims ?a user_text ! i \<ge> min_similarity ?a
               then answer (faq ?a ! i) else fallback_msg,
               sims ?a user_text ! i,
               if sims ?a user_text ! i \<ge> min_similarity ?a then to_dict (faq ?a ! i) else [])"
    by blast
  from i(4) a have "score = sims ?a user_text ! i"
    and "ans = (if sims ?a user_text ! i \<ge> min_similarity ?a
                then answer (faq ?a ! i) else fallback_msg)"
    by simp_all
  with i(1-3) show "\<exists>i<length (faq ?a). argmax (sims ?a user_text) = Some i
      \<and> (\<forall>j<length (faq ?a). sims ?a user_text ! j \<le> sims ?a user_text ! i)
      \<and> score = sims ?a user_text ! i
      \<and> ans = (if score \<ge> min_similarity ?a then answer (faq ?a ! i) else fallback_msg)"
    by blast
qed

theorem default_branch_message_witness:
  "(Map.empty :: session) pending_flow \<noteq> Some (VStr phishing_followup)
   \<and> detect_intent py (ustr ''vpn'') = ustr ''vpn''
   \<and> ustr ''vpn'' \<noteq> ustr ''greeting'' \<and> ustr ''vpn'' \<noteq> ustr ''phishing_incident''
   \<and> faq_answer (orch_faq (demo_orch [0.5, 0.2, 0.4])) (ustr ''vpn'')
       = Inr (answer (demo_faq ! 0), 0.5, to_dict (demo_faq ! 0))
   \<and> \<not> ((0.5 :: real) < 0.15
          \<and> (ustr ''vpn'' = ustr ''general'' \<or> ustr ''vpn'' = ustr ''incident_reporting''))
   \<and> \<not> (ustr ''vpn'' = ustr ''password_security'' \<and> (0.5 :: real) < 0.3)
   \<and> guidance (demo_orch [0.5, 0.2, 0.4]) (ustr ''vpn'') = Some demo_vpn_guidance
   \<and> (\<exists>resp. fst (respond py (demo_orch [0.5, 0.2, 0.4]) 0 (ustr ''vpn'') Map.empty (ustr ''anonymous'') db0) = Inr resp
          \<and> message resp =
              ustr ''Activez le VPN avant toute connexion.''
              @ [10, 10] @ ustr ''**Contexte :** '' @ ustr ''Le VPN chiffre le trafic.''
              @ [10, 10] @ ustr ''**Bonnes pratiques :**'' @ [10]
              @ [8226] @ ustr '' '' @ ustr ''Activez le VPN.'' @ [10]
              @ [8226] @ ustr '' '' @ ustr ''Fermez la session.'' @ [10])"
proof -
  have idle: "(Map.empty :: session) pending_flow \<noteq> Some (VStr phishing_followup)" by simp
  have ne: "ustr ''vpn'' \<noteq> ustr ''greeting''" "ustr ''vpn'' \<noteq> ustr ''phishing_incident''"
    by (simp_all add: ustr_def)
  have a: "faq_answer (orch_faq (demo_orch [0.5, 0.2, 0.4])) (ustr ''vpn'')
      = Inr (answer (demo_faq ! 0), 0.5, to_dict (demo_faq ! 0))"
    using demo_answers by simp
  have nc: "\<not> ((0.5 :: real) < 0.15
      \<and> (ustr ''vpn'' = ustr ''general'' \<or> ustr ''vpn'' = ustr ''incident_reporting''))"
    by simp
  have nf: "\<not> (ustr ''vpn'' = ustr ''password_security'' \<and> (0.5 :: real) < 0.3)" by simp
  have g: "guidance (demo_orch [0.5, 0.2, 0.4]) (ustr ''vpn'') = Some demo_vpn_guidance"
    by (simp add: demo_guidance_lookup)
  have e0: "answer (demo_faq ! 0) = ustr ''Activez le VPN avant toute connexion.''"
    by (simp add: demo_faq_def)
  from default_branch_message
    [where sess = Map.empty and r = 0 and uid = "ustr ''anonymous''" and d = db0,
      OF idle demo_intents(1) ne a nc nf]
  have "\<exists>resp. fst (respond py (demo_orch [0.5, 0.2, 0.4]) 0 (ustr ''vpn'') Map.empty (ustr ''anonymous'') db0) = Inr resp
          \<and> message resp =
              ustr ''Activez le VPN avant toute connexion.''
              @ [10, 10] @ ustr ''**Contexte :** '' @ ustr ''Le VPN chiffre le trafic.''
              @ [10, 10] @ ustr ''**Bonnes pratiques :**'' @ [10]
              @ [8226] @ ustr '' '' @ ustr ''Activez le VPN.'' @ [10]
              @ [8226] @ ustr '' '' @ ustr ''Fermez la session.'' @ [10]"
    by (simp add: demo_guidance_lookup e0 demo_vpn_guidance_def)
  with idle demo_intents(1) ne a nc nf g show ?thesis by (intro conjI)
qed

theorem password_low_confidence_fallback_witness:
  "(Map.empty :: session) pending_flow \<noteq> Some (VStr phishing_followup)
   \<and> detect_intent py (ustr ''mot de passe oublie'') = ustr ''password_security''
   \<and> faq_answer (orch_faq (demo_orch [0.1, 0.2, 0.05])) (ustr ''mot de passe oublie'')
       = Inr (answer (demo_faq ! 1), 0.2, to_dict (demo_faq ! 1))
   \<and> (0.2 :: real) < 0.3
   \<and> guidance (demo_orch [0.1, 0.2, 0.05]) (ustr ''password_security'') = Some demo_password_guidance
   \<and> (\<exists>resp. fst (respond py (demo_orch [0.1, 0.2, 0.05]) 0 (ustr ''mot de passe oublie'') Map.empty (ustr ''anonymous'') db0)
            = Inr resp
          \<and> message resp =
              password_recovery_script
              @ [10, 10] @ ustr ''**Contexte :** ''
              @ ustr ''Un mot de passe vole ouvre vos comptes.''
              @ [10, 10] @ ustr ''**Bonnes pratiques :**'' @ [10]
              @ [8226] @ ustr '' '' @ ustr ''Utilisez un gestionnaire.'' @ [10]
              @ [10] @ ustr ''**Erreurs courantes :**'' @ [10]
              @ [9888, 65039] @ ustr '' '' @ ustr ''Reutiliser un mot de passe.'' @ [10])"
proof -
  have idle: "(Map.empty :: session) pending_flow \<noteq> Some (VStr phishing_followup)" by simp
  have a: "faq_answer (orch_faq (demo_orch [0.1, 0.2, 0.05])) (ustr ''mot de passe oublie'')
      = Inr (answer (demo_faq ! 1), 0.2, to_dict (demo_faq ! 1))"
    using demo_answers by simp
  have lt: "(0.2 :: real) < 0.3" by simp
  have g: "guidance (demo_orch [0.1, 0.2, 0.05]) (ustr ''password_security'') = Some demo_password_guidance"
    by (simp add: demo_guidance_lookup)
  from password_low_confidence_fallback
    [where sess = Map.empty and r = 0 and uid = "ustr ''anonymous''" and d = db0,
      OF idle demo_intents(4) a lt]
  have "\<exists>resp. fst (respond py (demo_orch [0.1, 0.2, 0.05]) 0 (ustr ''mot de passe oublie'') Map.empty (ustr ''anonymous'') db0)
            = Inr resp
          \<and> message resp =
              password_recovery_script
              @ [10, 10] @ ustr ''**Contexte :** ''
              @ ustr ''Un mot de passe vole ouvre vos comptes.''
              @ [10, 10] @ ustr ''**Bonnes pratiques :**'' @ [10]
              @ [8226] @ ustr '' '' @ ustr ''Utilisez un gestionnaire.'' @ [10]
              @ [10] @ ustr ''**Erreurs courantes :**'' @ [10]
              @ [9888, 65039] @ ustr '' '' @ ustr ''Reutiliser un mot de passe.'' @ [10]"
    by (simp add: demo_guidance_lookup demo_password_guidance_def)
  with idle demo_intents(4) a lt g show ?thesis by (intro conjI)
qed

section \<open>Logging\<close>

text \<open>Every idle branch that returns logs the turn and then increments the counter.\<close>

lemma respond_idle_logs_and_counts:
  assumes "sess pending_flow \<noteq> Some (VStr phishing_followup)"
    and "fst (respond rt orch r user_text sess uid d) = Inr resp"
  shows "db_after (respond rt orch r user_text sess uid d)
     = increment_metric question_asked (intent resp)
         (save_conversation uid user_text (message resp) (intent resp) d)"
  using assms unfolding respond_def
  by (auto simp add: Let_def split: sum.splits prod.splits if_splits)

text \<open>The followup branch logs the turn and leaves the counters as they were.\<close>

lemma followup_logs_without_counter:
  assumes "sess pending_flow = Some (VStr phishing_followup)"
  shows "metrics (db_after (respond rt orch r user_text sess uid d)) = metrics d
     \<and> length (conversations (db_after (respond rt orch r user_text sess uid d)))
         = Suc (length (conversations d))"
  using assms by (simp add: respond_pending handler_db save_conversation_def)

text \<open>
  Claim C2.  The claim asks every branch of \<open>respond\<close> for one logged turn and one increment
  of \<open>question_asked\<close>.  The followup branch logs the turn and increments nothing: on a session
  awaiting the followup the answer \<open>oui\<close> is logged under \<open>phishing_followup\<close> and the metrics
  table stays empty, whereas the greeting \<open>bonjour\<close> on an idle session is logged and counted.
\<close>

theorem followup_turn_not_counted:
  "db_after (respond py (demo_orch [0.5, 0.2, 0.4]) 0 (ustr ''oui'') [pending_flow \<mapsto> VStr phishing_followup] (ustr ''anonymous'') db0)
     = \<lparr>conversations = [((ustr ''anonymous''), ustr ''oui'', urgent_msg, phishing_followup)], metrics = []\<rparr>
   \<and> db_after (respond py (demo_orch [0.5, 0.2, 0.4]) 0 (ustr ''bonjour'') Map.empty (ustr ''anonymous'') db0)
     = \<lparr>conversations = [((ustr ''anonymous''), ustr ''bonjour'', greeting_msg, ustr ''greeting'')],
        metrics = [(question_asked, 1, ustr ''greeting'')]\<rparr>"
proof -
  have c: "isin (ustr ''oui'') (str_lower py (ustr ''oui''))"
    by (simp add: py_def lower_latin1_def ustr_def)
  have f: "db_after (respond py (demo_orch [0.5, 0.2, 0.4]) 0 (ustr ''oui'') [pending_flow \<mapsto> VStr phishing_followup] (ustr ''anonymous'') db0)
     = \<lparr>conversations = [((ustr ''anonymous''), ustr ''oui'', urgent_msg, phishing_followup)], metrics = []\<rparr>"
    using c by (simp add: respond_pending handler_db save_conversation_def db0_def)
  have g: "db_after (respond py (demo_orch [0.5, 0.2, 0.4]) 0 (ustr ''bonjour'') Map.empty (ustr ''anonymous'') db0)
     = \<lparr>conversations = [((ustr ''anonymous''), ustr ''bonjour'', greeting_msg, ustr ''greeting'')],
        metrics = [(question_asked, 1, ustr ''greeting'')]\<rparr>"
    by (simp add: respond_def demo_intents Let_def save_conversation_def increment_metric_def
          db0_def)
  from f g show ?thesis by (intro conjI)
qed

section \<open>The suggestions\<close>

text \<open>The suggestions built from \<open>search\<close> carry the question of each entry as a string.\<close>

lemma search_suggestions_labels:
  "list_all (\<lambda>p. is_str (fst p)) (search_suggestions rt a user_text)"
  by (simp add: search_suggestions_def list_all_iff split_def)

text \<open>
  Claim C4.  The claim asks for a string label in every suggestion, on every branch.  The
  greeting branch and the clarification branch return their fixed chips as dictionaries
  \<open>{"question": ...}\<close>: no label of these suggestions is a string.
\<close>

theorem fixed_suggestion_labels_are_dicts:
  "fst (respond py (demo_orch [0.5, 0.2, 0.4]) 0 (ustr ''bonjour'') Map.empty (ustr ''anonymous'') db0)
     = Inr \<lparr>message = greeting_msg, steps = [], suggestions = greeting_suggestions,
            tip = ustr ''Verrouillez votre session.'', follow_up = [],
            intent = ustr ''greeting''\<rparr>
   \<and> map (\<lambda>p. is_str (fst p)) greeting_suggestions = [False, False, False]
   \<and> fst (respond py (demo_orch [0.05, 0.02, 0.01]) 0 (ustr ''Merci'') Map.empty (ustr ''anonymous'') db0)
     = Inr \<lparr>message = clarification_msg, steps = [], suggestions = clarification_suggestions,
            tip = ustr ''Verrouillez votre session.'', follow_up = [],
            intent = ustr ''general''\<rparr>
   \<and> map (\<lambda>p. is_str (fst p)) clarification_suggestions = [False, False, False, False]"
proof -
  have g: "fst (respond py (demo_orch [0.5, 0.2, 0.4]) 0 (ustr ''bonjour'') Map.empty (ustr ''anonymous'') db0)
     = Inr \<lparr>message = greeting_msg, steps = [], suggestions = greeting_suggestions,
            tip = ustr ''Verrouillez votre session.'', follow_up = [],
            intent = ustr ''greeting''\<rparr>"
    by (simp add: respond_def demo_intents Let_def)
  have gl: "map (\<lambda>p. is_str (fst p)) greeting_suggestions = [False, False, False]"
    by (simp add: greeting_suggestions_def)
  have ne: "ustr ''general'' \<noteq> ustr ''greeting''"
      "ustr ''general'' \<noteq> ustr ''phishing_incident''"
    by (simp_all add: ustr_def)
  have c: "fst (respond py (demo_orch [0.05, 0.02, 0.01]) 0 (ustr ''Merci'') Map.empty (ustr ''anonymous'') db0)
     = Inr \<lparr>message = clarification_msg, steps = [], suggestions = clarification_suggestions,
            tip = ustr ''Verrouillez votre session.'', follow_up = [],
            intent = ustr ''general''\<rparr>"
    using ne demo_answers(3) by (simp add: respond_def demo_intents Let_def)
  have cl: "map (\<lambda>p. is_str (fst p)) clarification_suggestions
      = [False, False, False, False]"
    by (simp add: clarification_suggestions_def)
  from g gl c cl show ?thesis by (intro conjI)
qed

end
